theory Spec2Isabelle
  imports Complex_Main "HOL-Library.AList" "HOL-Library.Sublist"
begin

section \<open>Monthly activity report backend: the query, aggregation and serialization layer\<close>

text \<open>
  The theory embeds \<^verbatim>\<open>main.py\<close>: the document serializer, the identifier codec, the month
  window, the activity query, the dashboard and recap aggregates and the two exporters,
  together with the part of the Python runtime and of the document store they rest on.

  Conventions.
  \<^item> A Python dictionary is an association list with distinct keys, in insertion order:
    \<open>dict_get\<close> is \<open>d.get(k)\<close>, \<open>dict_set\<close> is \<open>d[k] = v\<close> (an existing key keeps its place, a
    new key goes last), \<open>dict_pop\<close> is \<open>d.pop(k, None)\<close>.
  \<^item> An exception is a value: a handler returns \<open>exn + 'a\<close>, with \<open>Inl\<close> the exception that
    leaves it. An exception other than \<open>HTTPException\<close> that leaves a handler is what the
    framework answers with status 500.
  \<^item> \<open>datetime.utcnow()\<close> is the argument \<open>now\<close>; the clock reads of one request are taken
    at the same instant.
  \<^item> Text is ASCII. Floating-point numbers are rationals (rounding is not modelled); the
    text Python prints for a float, a list or a dictionary is the parameter \<open>repr_of\<close>, and
    \<open>format(x, ".2f")\<close> is the parameter \<open>fmt2f\<close>.
\<close>

subsection \<open>Python values\<close>

datatype date = Date (d_year: int) (d_month: int) (d_day: int)

datatype datetime =
  DateTime (dt_date: date) (dt_hour: int) (dt_minute: int) (dt_second: int) (dt_microsecond: int)

text \<open>
  The values a stored document holds. A document decoded from the store is a finite tree
  without sharing, so a nested record is part of the value of the list that holds it, and
  a mutation of the nested record is a change of that value.
\<close>

datatype pyval =
    VNone
  | VInt int
  | VFloat rat
  | VStr string
  | VObjectId string
  | VDate date
  | VDateTime datetime
  | VList "pyval list"
  | VDict "(string \<times> pyval) list"

type_synonym pydict = "(string \<times> pyval) list"

abbreviation dict_get :: "pydict \<Rightarrow> string \<Rightarrow> pyval option" where
  "dict_get d k \<equiv> map_of d k"

abbreviation dict_set :: "string \<Rightarrow> pyval \<Rightarrow> pydict \<Rightarrow> pydict" where
  "dict_set k v d \<equiv> AList.update k v d"

abbreviation dict_pop :: "string \<Rightarrow> pydict \<Rightarrow> pydict" where
  "dict_pop k d \<equiv> AList.delete k d"

text \<open>\<open>d.get(k)\<close> with the missing key read as \<open>None\<close>.\<close>

definition get_or_none :: "pydict \<Rightarrow> string \<Rightarrow> pyval" where
  "get_or_none d k = (case dict_get d k of None \<Rightarrow> VNone | Some v \<Rightarrow> v)"

text \<open>Truth value testing, as \<open>if x:\<close> and \<open>x or y\<close> do it.\<close>

fun truthy :: "pyval \<Rightarrow> bool" where
  "truthy VNone = False"
| "truthy (VInt i) = (i \<noteq> 0)"
| "truthy (VFloat r) = (r \<noteq> 0)"
| "truthy (VStr s) = (s \<noteq> [])"
| "truthy (VList xs) = (xs \<noteq> [])"
| "truthy (VDict d) = (d \<noteq> [])"
| "truthy (VObjectId h) = True"
| "truthy (VDate d) = True"
| "truthy (VDateTime t) = True"

definition int_or :: "int option \<Rightarrow> int \<Rightarrow> int" where
  "int_or x dflt = (case x of None \<Rightarrow> dflt | Some i \<Rightarrow> if i \<noteq> 0 then i else dflt)"

definition int_truthy :: "int option \<Rightarrow> bool" where
  "int_truthy x = (case x of None \<Rightarrow> False | Some i \<Rightarrow> i \<noteq> 0)"

definition str_truthy :: "string option \<Rightarrow> bool" where
  "str_truthy x = (case x of None \<Rightarrow> False | Some s \<Rightarrow> s \<noteq> [])"

text \<open>Exceptions that the modelled code raises or lets through.\<close>

datatype exn =
    ValueError
  | OverflowError
  | TypeError
  | InvalidId
  | PatternNotModelled
  | HTTPException int string

subsection \<open>Decimal text\<close>

definition digit_char :: "nat \<Rightarrow> char" where
  "digit_char n = ''0123456789'' ! n"

fun str_nat :: "nat \<Rightarrow> string" where
  "str_nat n = (if n < 10 then [digit_char n] else str_nat (n div 10) @ [digit_char (n mod 10)])"

declare str_nat.simps [simp del]

text \<open>\<open>str(i)\<close> for a Python integer.\<close>

definition str_int :: "int \<Rightarrow> string" where
  "str_int i = (if i < 0 then CHR ''-'' # str_nat (nat (- i)) else str_nat (nat i))"

text \<open>The format \<open>%0wd\<close> for a number that is not negative.\<close>

definition zero_pad :: "nat \<Rightarrow> int \<Rightarrow> string" where
  "zero_pad w i = (let s = str_nat (nat i) in replicate (w - length s) CHR ''0'' @ s)"

subsection \<open>Dates\<close>

definition is_leap :: "int \<Rightarrow> bool" where
  "is_leap y = (y mod 4 = 0 \<and> (y mod 100 \<noteq> 0 \<or> y mod 400 = 0))"

definition days_in_month :: "int \<Rightarrow> int \<Rightarrow> int" where
  "days_in_month y m =
     (if m = 2 then (if is_leap y then 29 else 28)
      else if m = 4 \<or> m = 6 \<or> m = 9 \<or> m = 11 then 30
      else 31)"

definition days_before_year :: "int \<Rightarrow> int" where
  "days_before_year y = (y - 1) * 365 + (y - 1) div 4 - (y - 1) div 100 + (y - 1) div 400"

definition days_before_month :: "int \<Rightarrow> int \<Rightarrow> int" where
  "days_before_month y m = sum_list (map (days_in_month y) [1..m - 1])"

text \<open>\<open>date.toordinal()\<close>: day 1 is 1 January of year 1.\<close>

definition toordinal :: "date \<Rightarrow> int" where
  "toordinal d = days_before_year (d_year d) + days_before_month (d_year d) (d_month d) + d_day d"

text \<open>\<open>(b - a).days\<close> for two dates.\<close>

definition days_between :: "date \<Rightarrow> date \<Rightarrow> int" where
  "days_between a b = toordinal b - toordinal a"

text \<open>Dates compare as the triples (year, month, day).\<close>

definition date_lt :: "date \<Rightarrow> date \<Rightarrow> bool" where
  "date_lt a b =
     (d_year a < d_year b \<or>
      d_year a = d_year b \<and> (d_month a < d_month b \<or> d_month a = d_month b \<and> d_day a < d_day b))"

definition date_le :: "date \<Rightarrow> date \<Rightarrow> bool" where
  "date_le a b = (a = b \<or> date_lt a b)"

definition c_int :: "int \<Rightarrow> bool" where
  "c_int i = (- (2 ^ 31) \<le> i \<and> i < 2 ^ 31)"

text \<open>
  The constructor \<open>datetime(y, m, d)\<close>: an argument that does not fit a C int is an
  \<open>OverflowError\<close>; a year outside 1..9999, a month outside 1..12 or a day outside the
  month is a \<open>ValueError\<close>. The time of day is midnight.
\<close>

definition mk_datetime :: "int \<Rightarrow> int \<Rightarrow> int \<Rightarrow> exn + datetime" where
  "mk_datetime y m d =
     (if \<not> (c_int y \<and> c_int m \<and> c_int d) then Inl OverflowError
      else if 1 \<le> y \<and> y \<le> 9999 \<and> 1 \<le> m \<and> m \<le> 12 \<and> 1 \<le> d \<and> d \<le> days_in_month y m
      then Inr (DateTime (Date y m d) 0 0 0 0)
      else Inl ValueError)"

text \<open>\<open>date.isoformat()\<close> and \<open>datetime.isoformat()\<close> (no time zone).\<close>

definition date_iso :: "date \<Rightarrow> string" where
  "date_iso d = zero_pad 4 (d_year d) @ ''-'' @ zero_pad 2 (d_month d) @ ''-'' @ zero_pad 2 (d_day d)"

definition datetime_iso :: "datetime \<Rightarrow> string" where
  "datetime_iso t =
     date_iso (dt_date t) @ ''T'' @ zero_pad 2 (dt_hour t) @ '':'' @ zero_pad 2 (dt_minute t)
       @ '':'' @ zero_pad 2 (dt_second t)
       @ (if dt_microsecond t = 0 then [] else ''.'' @ zero_pad 6 (dt_microsecond t))"

fun is_temporal :: "pyval \<Rightarrow> bool" where
  "is_temporal (VDate d) = True"
| "is_temporal (VDateTime t) = True"
| "is_temporal v = False"

fun isoformat :: "pyval \<Rightarrow> string" where
  "isoformat (VDate d) = date_iso d"
| "isoformat (VDateTime t) = datetime_iso t"
| "isoformat v = []"

text \<open>
  \<open>str(v)\<close>, which is also what an f-string prints for \<open>{v}\<close>. \<open>str\<close> of a date-time is its
  ISO form with a space for the \<open>T\<close>.
\<close>

definition datetime_str :: "datetime \<Rightarrow> string" where
  "datetime_str t =
     date_iso (dt_date t) @ '' '' @ zero_pad 2 (dt_hour t) @ '':'' @ zero_pad 2 (dt_minute t)
       @ '':'' @ zero_pad 2 (dt_second t)
       @ (if dt_microsecond t = 0 then [] else ''.'' @ zero_pad 6 (dt_microsecond t))"

fun py_str :: "(pyval \<Rightarrow> string) \<Rightarrow> pyval \<Rightarrow> string" where
  "py_str repr_of VNone = ''None''"
| "py_str repr_of (VInt i) = str_int i"
| "py_str repr_of (VStr s) = s"
| "py_str repr_of (VObjectId h) = h"
| "py_str repr_of (VDate d) = date_iso d"
| "py_str repr_of (VDateTime t) = datetime_str t"
| "py_str repr_of v = repr_of v"

subsection \<open>The document serializer\<close>

text \<open>
  \<^verbatim>\<open>serialize_doc(doc)\<close> receives a reference to a dictionary, assigns into that dictionary
  and returns the same reference. \<open>serialize_doc\<close> below maps the contents of the
  dictionary at the call to its contents at the return, statement by statement:
  \<open>rekey\<close> is the block that moves \<open>_id\<close> to \<open>id\<close>, and the function under the fold is
  the body of the loop over \<open>list(doc.items())\<close> for one entry \<open>(k, v)\<close> of the snapshot,
  acting on the current contents. The test \<^verbatim>\<open>if not doc\<close> also lets \<open>None\<close> through; the
  callers pass a dictionary.
\<close>

definition rekey :: "(pyval \<Rightarrow> string) \<Rightarrow> pydict \<Rightarrow> pydict" where
  "rekey repr_of doc =
     (case dict_get doc ''_id'' of
        None \<Rightarrow> doc
      | Some v \<Rightarrow>
          if v \<noteq> VNone
          then dict_pop ''_id'' (dict_set ''id'' (VStr (py_str repr_of v)) doc)
          else doc)"

function serialize_doc :: "(pyval \<Rightarrow> string) \<Rightarrow> pydict \<Rightarrow> pydict" where
  "serialize_doc repr_of doc =
     (if doc = [] then doc
      else
        let doc1 = rekey repr_of doc in
        foldl (\<lambda>doc (k, v).
                 let doc2 = (if is_temporal v then dict_set k (VStr (isoformat v)) doc else doc) in
                 (case v of
                    VList items \<Rightarrow>
                      dict_set k
                        (VList (map (\<lambda>item. case item of
                                       VDict nested \<Rightarrow> VDict (serialize_doc repr_of nested)
                                     | _ \<Rightarrow> item) items)) doc2
                  | _ \<Rightarrow> doc2))
          doc1 doc1)"
  by pat_completeness auto
termination
proof (relation "measure (\<lambda>(f, d). size_list (size_prod (\<lambda>k. 0) size) d)")
  fix repr_of :: "pyval \<Rightarrow> string" and doc x a :: pydict and xa xb y xc x8 xd x9
  assume "x = rekey repr_of doc" "xa \<in> set x" "(xb, y) = xa" "y = VList x8" "xd \<in> set x8"
    "xd = VDict x9"
  then have in_rekey: "(xb, VList x8) \<in> set (rekey repr_of doc)" and in_list: "VDict x9 \<in> set x8"
    by auto
  have upd: "set (dict_set k v d) \<subseteq> insert (k, v) (set d)" for k v and d :: pydict
    by (induction d) auto
  have del: "set (dict_pop k d) \<subseteq> set d" for k and d :: pydict
    by (auto simp: AList.delete_eq)
  have "(xb, VList x8) \<in> set doc"
  proof (cases "dict_get doc ''_id''")
    case None
    with in_rekey show ?thesis by (simp add: rekey_def)
  next
    case (Some v)
    show ?thesis
    proof (cases "v = VNone")
      case True
      with Some in_rekey show ?thesis by (simp add: rekey_def)
    next
      case False
      with Some in_rekey
      have "(xb, VList x8) \<in> set (dict_pop ''_id'' (dict_set ''id'' (VStr (py_str repr_of v)) doc))"
        by (simp add: rekey_def)
      with del have "(xb, VList x8) \<in> set (dict_set ''id'' (VStr (py_str repr_of v)) doc)"
        by blast
      with upd show ?thesis by blast
    qed
  qed
  then have "size (VList x8) \<le> size_list (size_prod (\<lambda>k. 0) size) doc"
    by (induction doc) auto
  moreover from in_list have "size_list (size_prod (\<lambda>k. 0) size) x9 < size (VList x8)"
    by (induction x8) auto
  ultimately show "((repr_of, x9), (repr_of, doc)) \<in> measure (\<lambda>(f, d). size_list (size_prod (\<lambda>k. 0) size) d)"
    by simp
qed simp

declare serialize_doc.simps [simp del]

text \<open>
  The call itself, on a store of dictionaries held by reference: the dictionary at \<open>a\<close> is
  overwritten with its serialized contents, and \<open>a\<close> is the value returned (the statement
  \<^verbatim>\<open>return doc\<close>). No other dictionary of the store is touched.
\<close>

type_synonym addr = nat

type_synonym store = "addr \<Rightarrow> pydict option"

definition call_serialize_doc :: "(pyval \<Rightarrow> string) \<Rightarrow> store \<Rightarrow> addr \<Rightarrow> addr \<times> store" where
  "call_serialize_doc repr_of s a =
     (case s a of
        None \<Rightarrow> (a, s)
      | Some doc \<Rightarrow> (a, s(a \<mapsto> serialize_doc repr_of doc)))"

subsection \<open>The identifier codec\<close>

definition is_hex :: "char \<Rightarrow> bool" where
  "is_hex c = (c \<in> set ''0123456789abcdefABCDEF'')"

definition lower_char :: "char \<Rightarrow> char" where
  "lower_char c =
     (case map_of (zip ''ABCDEFGHIJKLMNOPQRSTUVWXYZ'' ''abcdefghijklmnopqrstuvwxyz'') c of
        None \<Rightarrow> c
      | Some l \<Rightarrow> l)"

definition lower :: "string \<Rightarrow> string" where
  "lower s = map lower_char s"

text \<open>
  \<open>bytes.fromhex(s)\<close>: the bytes that the text spells, two hexadecimal digits for each,
  with ASCII white space skipped before every pair; a character that is neither, or a
  digit without its second, is a \<open>ValueError\<close>. The result here is the bytes spelled in
  lower case, or \<open>None\<close> for the error.
\<close>

definition is_space :: "char \<Rightarrow> bool" where
  "is_space c = (c \<in> set [CHR '' '', CHR 0x09, CHR 0x0A, CHR 0x0B, CHR 0x0C, CHR 0x0D])"

fun fromhex :: "string \<Rightarrow> string option" where
  "fromhex [] = Some []"
| "fromhex [c] = (if is_space c then Some [] else None)"
| "fromhex (c # d # s) =
     (if is_space c then fromhex (d # s)
      else if is_hex c \<and> is_hex d
      then map_option (\<lambda>h. lower_char c # lower_char d # h) (fromhex s)
      else None)"

text \<open>
  \<open>bson.objectid.ObjectId(oid)\<close> for a string: a string of length 24 that \<open>bytes.fromhex\<close>
  reads names the bytes it spells (the case of the digits is immaterial, and \<open>str\<close> of the
  identifier spells the bytes in lower case); any other string raises \<open>InvalidId\<close>. As
  \<open>fromhex\<close> skips white space, a string of length 24 with white space between its pairs
  of digits is read too, as fewer than twelve bytes. The store of this theory compares
  identifiers as values; what the driver does with an identifier of fewer than twelve
  bytes is not modelled.
\<close>

definition ObjectId :: "string \<Rightarrow> exn + pyval" where
  "ObjectId oid =
     (if length oid = 24
      then (case fromhex oid of None \<Rightarrow> Inl InvalidId | Some h \<Rightarrow> Inr (VObjectId h))
      else Inl InvalidId)"

definition to_object_id :: "string \<Rightarrow> exn + pyval" where
  "to_object_id oid =
     (case ObjectId oid of
        Inr v \<Rightarrow> Inr v
      | Inl e \<Rightarrow> Inl (HTTPException 400 ''Invalid ID format''))"

subsection \<open>The document store\<close>

text \<open>
  The collection \<open>activity\<close> is the list of its documents. A filter is the dictionary the
  handlers build, as a list of clauses that must all hold: a condition on a field
  (equality; the range \<^verbatim>\<open>{"$gte": lo, "$lt": hi}\<close>; \<^verbatim>\<open>{"$regex": p, "$options": o}\<close>) or the
  \<^verbatim>\<open>$or\<close> of a list of clauses.
\<close>

datatype cond = Eq pyval | GteLt pyval pyval | Regex string string

datatype clause = Field string cond | Or "clause list"

type_synonym query = "clause list"

text \<open>
  Regular expressions. The pattern language is far larger than what is modelled: a
  pattern in which every character is an ordinary character or a dot is compiled, with
  the ordinary character matching itself and the dot matching any character but a line
  feed; any other pattern is outside the model. A pattern matches a text when it matches
  some segment of it (the search is unanchored). Option \<open>i\<close> compares letters regardless
  of case.
\<close>

datatype rx_item = RChar char | RAny

definition rx_meta :: "char \<Rightarrow> bool" where
  "rx_meta c = (c \<in> set (CHR 0x5C # ''^$.|?*+()[]{}''))"

fun rx_compile :: "string \<Rightarrow> rx_item list option" where
  "rx_compile [] = Some []"
| "rx_compile (c # cs) =
     (if c = CHR ''.'' then map_option (Cons RAny) (rx_compile cs)
      else if rx_meta c then None
      else map_option (Cons (RChar c)) (rx_compile cs))"

fun rx_item_ok :: "bool \<Rightarrow> rx_item \<Rightarrow> char \<Rightarrow> bool" where
  "rx_item_ok ci (RChar a) c = (if ci then lower_char a = lower_char c else a = c)"
| "rx_item_ok ci RAny c = (c \<noteq> CHR 0x0A)"

fun rx_here :: "bool \<Rightarrow> rx_item list \<Rightarrow> string \<Rightarrow> bool" where
  "rx_here ci [] s = True"
| "rx_here ci (p # ps) [] = False"
| "rx_here ci (p # ps) (c # cs) = (rx_item_ok ci p c \<and> rx_here ci ps cs)"

fun rx_search :: "bool \<Rightarrow> rx_item list \<Rightarrow> string \<Rightarrow> bool" where
  "rx_search ci ps [] = rx_here ci ps []"
| "rx_search ci ps (c # cs) = (rx_here ci ps (c # cs) \<or> rx_search ci ps cs)"

definition regex_modelled :: "string \<Rightarrow> string \<Rightarrow> bool" where
  "regex_modelled pat opts = (rx_compile pat \<noteq> None \<and> (opts = [] \<or> opts = ''i''))"

definition regex_search :: "string \<Rightarrow> string \<Rightarrow> string \<Rightarrow> bool" where
  "regex_search pat opts s =
     (case rx_compile pat of None \<Rightarrow> False | Some items \<Rightarrow> rx_search (opts = ''i'') items s)"

text \<open>
  A range condition compares values of one kind only; the bounds the handlers pass are
  dates, so the condition holds of a field that holds a date within the bounds.
\<close>

fun in_range :: "pyval \<Rightarrow> pyval \<Rightarrow> pyval \<Rightarrow> bool" where
  "in_range (VDate lo) (VDate hi) (VDate d) = (date_le lo d \<and> date_lt d hi)"
| "in_range lo hi v = False"

fun cond_holds :: "cond \<Rightarrow> pyval option \<Rightarrow> bool" where
  "cond_holds (Eq x) v = (v = Some x)"
| "cond_holds (GteLt lo hi) v = (case v of None \<Rightarrow> False | Some x \<Rightarrow> in_range lo hi x)"
| "cond_holds (Regex pat opts) v =
     (case v of Some (VStr s) \<Rightarrow> regex_search pat opts s | _ \<Rightarrow> False)"

fun clause_holds :: "pydict \<Rightarrow> clause \<Rightarrow> bool" where
  "clause_holds doc (Field k c) = cond_holds c (dict_get doc k)"
| "clause_holds doc (Or cs) = list_ex (clause_holds doc) cs"

definition matches :: "query \<Rightarrow> pydict \<Rightarrow> bool" where
  "matches q doc = list_all (clause_holds doc) q"

fun clause_modelled :: "clause \<Rightarrow> bool" where
  "clause_modelled (Field k (Regex pat opts)) = regex_modelled pat opts"
| "clause_modelled (Field k c) = True"
| "clause_modelled (Or cs) = list_all clause_modelled cs"

text \<open>
  Modelled from the spec: \<open>get_documents\<close> of the module \<open>database\<close>, the store's
  \<open>findMany(collection, filter)\<close>: the documents of the collection that satisfy the filter,
  in the order of the collection.
\<close>

definition get_documents :: "pydict list \<Rightarrow> query \<Rightarrow> exn + pydict list" where
  "get_documents db q =
     (if list_all clause_modelled q then Inr (filter (matches q) db) else Inl PatternNotModelled)"


definition count_documents :: "pydict list \<Rightarrow> query \<Rightarrow> nat" where
  "count_documents db q = length (filter (matches q) db)"

text \<open>
  \<open>update_one\<close> with \<^verbatim>\<open>{"$set": fields}\<close> and \<open>delete_one\<close> act on the first document that
  satisfies the filter; they return the count of documents modified (a document that the
  update leaves as it was does not count) or deleted, and the collection.
\<close>

fun update_one :: "pydict list \<Rightarrow> query \<Rightarrow> pydict \<Rightarrow> nat \<times> pydict list" where
  "update_one [] q fields = (0, [])"
| "update_one (d # ds) q fields =
     (if matches q d
      then (let d' = foldl (\<lambda>doc (k, v). dict_set k v doc) d fields
            in (if d' \<noteq> d then 1 else 0, d' # ds))
      else (let (n, ds') = update_one ds q fields in (n, d # ds')))"


text \<open>
  The two \<^verbatim>\<open>$group\<close> stages. Grouping by a field counts the documents of each value of the
  field, a missing field grouping with \<open>null\<close>; numbers are one group when they are equal
  as numbers. The store promises no order of the groups: the model lists them in the
  order of their first document. Grouping by \<open>None\<close> sums over all the documents (a value
  that is not a number adds nothing), and yields no group at all when there is no
  document.
\<close>

fun num_of :: "pyval \<Rightarrow> rat option" where
  "num_of (VInt i) = Some (of_int i)"
| "num_of (VFloat r) = Some r"
| "num_of v = None"

definition same_key :: "pyval \<Rightarrow> pyval \<Rightarrow> bool" where
  "same_key a b =
     (case (num_of a, num_of b) of
        (Some x, Some y) \<Rightarrow> x = y
      | (None, None) \<Rightarrow> a = b
      | _ \<Rightarrow> False)"

fun bump :: "pyval \<Rightarrow> (pyval \<times> nat) list \<Rightarrow> (pyval \<times> nat) list" where
  "bump k [] = [(k, 1)]"
| "bump k ((k', n) # g) = (if same_key k' k then (k', Suc n) # g else (k', n) # bump k g)"

definition group_count :: "string \<Rightarrow> pydict list \<Rightarrow> (pyval \<times> nat) list" where
  "group_count field docs = foldl (\<lambda>g d. bump (get_or_none d field) g) [] docs"

definition if_null :: "pyval \<Rightarrow> pyval \<Rightarrow> pyval" where
  "if_null v dflt = (if v = VNone then dflt else v)"

definition sum_field :: "string \<Rightarrow> pydict list \<Rightarrow> rat" where
  "sum_field field docs =
     sum_list (map (\<lambda>d. case num_of (if_null (get_or_none d field) (VInt 0)) of
                           None \<Rightarrow> 0 | Some x \<Rightarrow> x) docs)"

definition group_finance :: "pydict list \<Rightarrow> (rat \<times> rat) list" where
  "group_finance docs = (if docs = [] then [] else [(sum_field ''income'' docs, sum_field ''expense'' docs)])"

definition aggregate_match :: "pydict list \<Rightarrow> query \<Rightarrow> pydict list" where
  "aggregate_match db q = filter (matches q) db"

subsection \<open>The month window\<close>

text \<open>
  The four statements that \<open>list_activities\<close>, \<open>dashboard\<close> and \<open>monthly_recap\<close> share:
  \<^verbatim>\<open>y = year or utcnow().year\<close>, \<^verbatim>\<open>m = month or utcnow().month\<close>, \<^verbatim>\<open>start = datetime(y, m, 1)\<close>,
  \<^verbatim>\<open>end = datetime(y + 1, 1, 1) if m == 12 else datetime(y, m + 1, 1)\<close>. The result is
  \<open>(y, m, start.date(), end.date())\<close>, or the exception a constructor raised. \<open>date_range\<close> is
  the condition \<^verbatim>\<open>{"date": {"$gte": start.date(), "$lt": end.date()}}\<close>.
\<close>

definition month_window :: "datetime \<Rightarrow> int option \<Rightarrow> int option \<Rightarrow> exn + (int \<times> int \<times> date \<times> date)" where
  "month_window now month year =
     (let y = int_or year (d_year (dt_date now));
          m = int_or month (d_month (dt_date now))
      in case mk_datetime y m 1 of
           Inl e \<Rightarrow> Inl e
         | Inr start \<Rightarrow>
             (case (if m = 12 then mk_datetime (y + 1) 1 1 else mk_datetime y (m + 1) 1) of
                Inl e \<Rightarrow> Inl e
              | Inr stop \<Rightarrow> Inr (y, m, dt_date start, dt_date stop)))"

definition date_range :: "date \<Rightarrow> date \<Rightarrow> clause" where
  "date_range start stop = Field ''date'' (GteLt (VDate start) (VDate stop))"

subsection \<open>Activities: list, read, update, delete\<close>

text \<open>
  The filter of \<open>list_activities\<close>. The \<^verbatim>\<open>try\<close> around the window leaves the filter without a
  date condition when a constructor raises.
\<close>

definition list_activities_query ::
  "datetime \<Rightarrow> int option \<Rightarrow> int option \<Rightarrow> string option \<Rightarrow> string option \<Rightarrow> query" where
  "list_activities_query now month year category search =
     (let q0 = [];
          q1 = (if int_truthy month \<or> int_truthy year
                then (case month_window now month year of
                        Inl e \<Rightarrow> q0
                      | Inr (y, m, start, stop) \<Rightarrow> q0 @ [date_range start stop])
                else q0);
          q2 = (if str_truthy category then q1 @ [Field ''category'' (Eq (VStr (the category)))] else q1);
          q3 = (if str_truthy search
                then q2 @ [Or [Field ''name'' (Regex (the search) ''i''),
                               Field ''result'' (Regex (the search) ''i''),
                               Field ''notes'' (Regex (the search) ''i'')]]
                else q2)
      in q3)"

definition list_activities ::
  "(pyval \<Rightarrow> string) \<Rightarrow> pydict list \<Rightarrow> datetime \<Rightarrow> int option \<Rightarrow> int option \<Rightarrow> string option
     \<Rightarrow> string option \<Rightarrow> exn + pydict list" where
  "list_activities repr_of db now month year category search =
     (case get_documents db (list_activities_query now month year category search) of
        Inl e \<Rightarrow> Inl e
      | Inr docs \<Rightarrow> Inr (map (serialize_doc repr_of) docs))"


text \<open>
  The body of a partial update: the nine optional fields of \<open>ActivityUpdate\<close>, and
  \<^verbatim>\<open>model_dump(exclude_none=True)\<close>, which keeps the fields that are set, in the order of
  their declaration.
\<close>

record activity_update =
  upd_date :: "date option"
  upd_name :: "string option"
  upd_category :: "string option"
  upd_duration :: "rat option"
  upd_result :: "string option"
  upd_notes :: "string option"
  upd_income :: "rat option"
  upd_expense :: "rat option"
  upd_finance_category :: "string option"

definition dump_field :: "string \<Rightarrow> ('a \<Rightarrow> pyval) \<Rightarrow> 'a option \<Rightarrow> pydict" where
  "dump_field k wrap x = (case x of None \<Rightarrow> [] | Some v \<Rightarrow> [(k, wrap v)])"

definition model_dump_exclude_none :: "activity_update \<Rightarrow> pydict" where
  "model_dump_exclude_none p =
     dump_field ''date'' VDate (upd_date p) @
     dump_field ''name'' VStr (upd_name p) @
     dump_field ''category'' VStr (upd_category p) @
     dump_field ''duration'' VFloat (upd_duration p) @
     dump_field ''result'' VStr (upd_result p) @
     dump_field ''notes'' VStr (upd_notes p) @
     dump_field ''income'' VFloat (upd_income p) @
     dump_field ''expense'' VFloat (upd_expense p) @
     dump_field ''finance_category'' VStr (upd_finance_category p)"

text \<open>
  \<open>update_activity\<close> returns the value of \<open>updated\<close> and the collection as the request
  leaves it.
\<close>

definition update_activity ::
  "pydict list \<Rightarrow> datetime \<Rightarrow> string \<Rightarrow> activity_update \<Rightarrow> exn + (bool \<times> pydict list)" where
  "update_activity db now activity_id payload =
     (let update_data = model_dump_exclude_none payload in
      if update_data = [] then Inr (False, db)
      else
        let update_data = dict_set ''updated_at'' (VDateTime now) update_data in
        case to_object_id activity_id of
          Inl e \<Rightarrow> Inl e
        | Inr oid \<Rightarrow>
            (let (modified_count, db') = update_one db [Field ''_id'' (Eq oid)] update_data
             in Inr (modified_count = 1, db')))"


subsection \<open>Dashboard and recap\<close>

text \<open>
  The dictionary comprehension \<^verbatim>\<open>{item["_id"] or "unknown": item["count"] for item in ...}\<close>:
  the entries are stored one after the other, a later entry with a key already present
  replacing the count stored under it; a list or a dictionary is not hashable and cannot
  be a key.
\<close>

fun hashable :: "pyval \<Rightarrow> bool" where
  "hashable (VList xs) = False"
| "hashable (VDict d) = False"
| "hashable v = True"

fun count_put :: "pyval \<Rightarrow> nat \<Rightarrow> (pyval \<times> nat) list \<Rightarrow> (pyval \<times> nat) list" where
  "count_put k n [] = [(k, n)]"
| "count_put k n ((k', n') # r) = (if same_key k' k then (k', n) # r else (k', n') # count_put k n r)"

definition label :: "pyval \<Rightarrow> pyval" where
  "label v = (if truthy v then v else VStr ''unknown'')"

fun label_counts :: "(pyval \<times> nat) list \<Rightarrow> (pyval \<times> nat) list \<Rightarrow> exn + (pyval \<times> nat) list" where
  "label_counts acc [] = Inr acc"
| "label_counts acc ((gid, n) # items) =
     (if hashable (label gid) then label_counts (count_put (label gid) n acc) items
      else Inl TypeError)"

record dashboard_result =
  total_activities :: nat
  total_income :: rat
  total_expense :: rat
  per_category :: "(pyval \<times> nat) list"

definition dashboard :: "pydict list \<Rightarrow> datetime \<Rightarrow> int option \<Rightarrow> int option \<Rightarrow> exn + dashboard_result" where
  "dashboard db now month year =
     (case month_window now month year of
        Inl e \<Rightarrow> Inl e
      | Inr (y, m, start, stop) \<Rightarrow>
          (let match_stage = [date_range start stop];
               cat_counts = group_count ''category'' (aggregate_match db match_stage);
               finance = group_finance (aggregate_match db match_stage);
               income = (case finance of [] \<Rightarrow> 0 | f # fs \<Rightarrow> fst f);
               expense = (case finance of [] \<Rightarrow> 0 | f # fs \<Rightarrow> snd f);
               total = count_documents db match_stage
           in case label_counts [] cat_counts of
                Inl e \<Rightarrow> Inl e
              | Inr labelled \<Rightarrow>
                  Inr \<lparr>total_activities = total, total_income = income, total_expense = expense,
                       per_category = labelled\<rparr>))"

text \<open>
  \<^verbatim>\<open>max(categories, key=categories.get)\<close>: the first key, in the order of the dictionary,
  whose count is the greatest.
\<close>

definition max_key :: "(pyval \<times> nat) list \<Rightarrow> pyval" where
  "max_key categories =
     fst (foldl (\<lambda>best item. if snd best < snd item then item else best) (hd categories) (tl categories))"

record recap_result =
  recap_month :: int
  recap_year :: int
  recap_categories :: "(pyval \<times> nat) list"
  recap_income :: rat
  recap_expense :: rat
  recap_summary :: string

definition recap_text ::
  "(pyval \<Rightarrow> string) \<Rightarrow> (rat \<Rightarrow> string) \<Rightarrow> int \<Rightarrow> int \<Rightarrow> (pyval \<times> nat) list \<Rightarrow> rat \<Rightarrow> rat \<Rightarrow> string" where
  "recap_text repr_of fmt2f m y categories income expense =
     ''Bulan '' @ str_int m @ ''/'' @ str_int y @ '': Total kegiatan ''
       @ str_nat (sum_list (map snd categories)) @ ''. ''
       @ ''Kategori terbanyak: ''
       @ (if categories \<noteq> [] then py_str repr_of (max_key categories) else ''N/A'') @ ''. ''
       @ ''Pemasukan '' @ fmt2f income @ '', Pengeluaran '' @ fmt2f expense @ ''.''"

definition monthly_recap ::
  "(pyval \<Rightarrow> string) \<Rightarrow> (rat \<Rightarrow> string) \<Rightarrow> pydict list \<Rightarrow> datetime \<Rightarrow> int option \<Rightarrow> int option
     \<Rightarrow> exn + recap_result" where
  "monthly_recap repr_of fmt2f db now month year =
     (case month_window now month year of
        Inl e \<Rightarrow> Inl e
      | Inr (y, m, start, stop) \<Rightarrow>
          (let match = [date_range start stop] in
           case label_counts [] (group_count ''category'' (aggregate_match db match)) of
             Inl e \<Rightarrow> Inl e
           | Inr categories \<Rightarrow>
               (let finance = group_finance (aggregate_match db match);
                    income = (case finance of [] \<Rightarrow> 0 | f # fs \<Rightarrow> fst f);
                    expense = (case finance of [] \<Rightarrow> 0 | f # fs \<Rightarrow> snd f)
                in Inr \<lparr>recap_month = m, recap_year = y, recap_categories = categories,
                        recap_income = income, recap_expense = expense,
                        recap_summary = recap_text repr_of fmt2f m y categories income expense\<rparr>)))"

subsection \<open>Exports\<close>

text \<open>
  \<open>csv.writer\<close> in its default dialect: fields are separated by commas and a row ends with
  carriage return and line feed; \<open>None\<close> is written as the empty text, a string as it is,
  any other value as \<open>str\<close> prints it; a field that holds a comma, a double quote, a
  carriage return or a line feed is put between double quotes, with every double quote
  in it doubled; a row that is one empty field is written as two double quotes.
\<close>

definition CR :: char where
  "CR = CHR 0x0D"

definition LF :: char where
  "LF = CHR 0x0A"

definition DQ :: char where
  "DQ = CHR 0x22"

definition csv_special :: "char \<Rightarrow> bool" where
  "csv_special c = (c = CHR '','' \<or> c = DQ \<or> c = CR \<or> c = LF)"

definition csv_text :: "(pyval \<Rightarrow> string) \<Rightarrow> pyval \<Rightarrow> string" where
  "csv_text repr_of v = (if v = VNone then [] else py_str repr_of v)"

definition csv_field :: "string \<Rightarrow> string" where
  "csv_field s =
     (if list_ex csv_special s
      then [DQ] @ concat (map (\<lambda>c. if c = DQ then [DQ, DQ] else [c]) s) @ [DQ]
      else s)"

text \<open>\<open>sep.join(xs)\<close>.\<close>

fun join :: "string \<Rightarrow> string list \<Rightarrow> string" where
  "join sep [] = []"
| "join sep [x] = x"
| "join sep (x # y # ys) = x @ sep @ join sep (y # ys)"

definition csv_writerow :: "(pyval \<Rightarrow> string) \<Rightarrow> pyval list \<Rightarrow> string" where
  "csv_writerow repr_of row =
     (let fields = map (\<lambda>v. csv_field (csv_text repr_of v)) row
      in (if fields = [[]] then [DQ, DQ] else join '','' fields) @ [CR, LF])"

definition csv_header :: "pyval list" where
  "csv_header =
     map VStr [''Tanggal'', ''Nama'', ''Kategori'', ''Durasi'', ''Hasil'', ''Catatan'',
               ''Pemasukan'', ''Pengeluaran'', ''Kategori Keuangan'']"

definition csv_columns :: "string list" where
  "csv_columns =
     [''date'', ''name'', ''category'', ''duration'', ''result'', ''notes'',
      ''income'', ''expense'', ''finance_category'']"

definition csv_row :: "(pyval \<Rightarrow> string) \<Rightarrow> pydict \<Rightarrow> string" where
  "csv_row repr_of a = csv_writerow repr_of (map (get_or_none a) csv_columns)"

definition csv_content :: "(pyval \<Rightarrow> string) \<Rightarrow> pydict list \<Rightarrow> string" where
  "csv_content repr_of activities =
     foldl (\<lambda>output a. output @ csv_row repr_of a) (csv_writerow repr_of csv_header) activities"

record response =
  content :: string
  media_type :: string
  content_disposition :: string

definition export_name :: "datetime \<Rightarrow> int option \<Rightarrow> int option \<Rightarrow> string \<Rightarrow> string" where
  "export_name now month year ext =
     ''laporan_'' @ str_int (int_or year (d_year (dt_date now))) @ ''_''
       @ str_int (int_or month (d_month (dt_date now))) @ ext"

definition export_csv ::
  "(pyval \<Rightarrow> string) \<Rightarrow> pydict list \<Rightarrow> datetime \<Rightarrow> int option \<Rightarrow> int option \<Rightarrow> exn + response" where
  "export_csv repr_of db now month year =
     (case list_activities repr_of db now month year None None of
        Inl e \<Rightarrow> Inl e
      | Inr activities \<Rightarrow>
          Inr \<lparr>content = csv_content repr_of activities, media_type = ''text/csv'',
               content_disposition = ''attachment; filename='' @ export_name now month year ''.csv''\<rparr>)"

definition report_line :: "(pyval \<Rightarrow> string) \<Rightarrow> pydict \<Rightarrow> string" where
  "report_line repr_of a =
     ''- '' @ py_str repr_of (get_or_none a ''date'') @ '' | '' @ py_str repr_of (get_or_none a ''name'')
       @ '' | '' @ py_str repr_of (get_or_none a ''category'') @ '' | ''
       @ py_str repr_of (get_or_none a ''duration'') @ '' jam''"

definition report_lines :: "(pyval \<Rightarrow> string) \<Rightarrow> recap_result \<Rightarrow> pydict list \<Rightarrow> string list" where
  "report_lines repr_of recap activities =
     foldl (\<lambda>lines a. lines @ [report_line repr_of a])
       [''Laporan Bulanan'',
        ''Bulan: '' @ str_int (recap_month recap) @ ''/'' @ str_int (recap_year recap),
        recap_summary recap,
        [],
        ''Rincian Kegiatan:'']
       activities"

definition export_pdf ::
  "(pyval \<Rightarrow> string) \<Rightarrow> (rat \<Rightarrow> string) \<Rightarrow> pydict list \<Rightarrow> datetime \<Rightarrow> int option \<Rightarrow> int option
     \<Rightarrow> exn + response" where
  "export_pdf repr_of fmt2f db now month year =
     (case monthly_recap repr_of fmt2f db now month year of
        Inl e \<Rightarrow> Inl e
      | Inr recap \<Rightarrow>
          (case list_activities repr_of db now month year None None of
             Inl e \<Rightarrow> Inl e
           | Inr activities \<Rightarrow>
               Inr \<lparr>content = join [LF] (report_lines repr_of recap activities),
                    media_type = ''text/plain'',
                    content_disposition =
                      ''attachment; filename='' @ export_name now month year ''.txt''\<rparr>))"

text \<open>
  The lines of a text: the count of its line ends, a line end being a carriage return
  with the line feed after it, or either of the two alone.
\<close>

fun count_lines :: "string \<Rightarrow> nat" where
  "count_lines [] = 0"
| "count_lines [c] = (if c = CR \<or> c = LF then 1 else 0)"
| "count_lines (c # d # s) =
     (if c = CR \<and> d = LF then Suc (count_lines s)
      else if c = CR \<or> c = LF then Suc (count_lines (d # s))
      else count_lines (d # s))"

text \<open>The search term occurs in a text, letters compared regardless of case.\<close>

definition ci_substring :: "string \<Rightarrow> string \<Rightarrow> bool" where
  "ci_substring needle hay = sublist (lower needle) (lower hay)"


subsection \<open>Auxiliary notions of the proofs\<close>

text \<open>
  A value is well formed when the keys of every dictionary in it are distinct, as the keys
  of a Python dictionary are.
\<close>

fun wf_val :: "pyval \<Rightarrow> bool" where
  "wf_val (VList xs) = list_all wf_val xs"
| "wf_val (VDict d) = (distinct (map fst d) \<and> list_all (\<lambda>(k, v). wf_val v) d)"
| "wf_val v = True"

text \<open>
  The parts of \<open>serialize_doc\<close>, named: \<open>serialize_value\<close> is what the inner loop appends for
  an item, \<open>serialize_entry\<close> is the body of the outer loop, and \<open>convert\<close> is the value the
  outer loop leaves under the key of an entry.
\<close>

definition serialize_value :: "(pyval \<Rightarrow> string) \<Rightarrow> pyval \<Rightarrow> pyval" where
  "serialize_value repr_of item =
     (case item of VDict nested \<Rightarrow> VDict (serialize_doc repr_of nested) | _ \<Rightarrow> item)"

definition serialize_entry :: "(pyval \<Rightarrow> string) \<Rightarrow> pydict \<Rightarrow> string \<times> pyval \<Rightarrow> pydict" where
  "serialize_entry repr_of doc e =
     (case e of (k, v) \<Rightarrow>
        let doc2 = (if is_temporal v then dict_set k (VStr (isoformat v)) doc else doc) in
        (case v of
           VList items \<Rightarrow> dict_set k (VList (map (serialize_value repr_of) items)) doc2
         | _ \<Rightarrow> doc2))"

definition convert :: "(pyval \<Rightarrow> string) \<Rightarrow> pyval \<Rightarrow> pyval" where
  "convert repr_of v =
     (if is_temporal v then VStr (isoformat v)
      else case v of VList items \<Rightarrow> VList (map (serialize_value repr_of) items) | _ \<Rightarrow> v)"

subsection \<open>Example data\<close>

text \<open>
  A rendering of floats, lists and dictionaries that is right on the numbers of the
  examples; an activity as the store returns it; the same activity in wire form; a store
  that holds the activity at address 0.
\<close>

definition example_repr :: "pyval \<Rightarrow> string" where
  "example_repr v = (case v of VFloat q \<Rightarrow> (if q = 2 then ''2.0'' else ''0.0'') | _ \<Rightarrow> ''[]'')"

definition example_activity :: pydict where
  "example_activity =
     [(''_id'', VObjectId ''65e6f0a1b2c3d4e5f6a7b8c9''),
      (''date'', VDate (Date 2024 3 5)),
      (''name'', VStr ''Rapat''),
      (''category'', VStr ''administrasi''),
      (''duration'', VFloat 2),
      (''attachments'',
         VList [VDict [(''filename'', VStr ''a.pdf''),
                       (''uploaded'', VDateTime (DateTime (Date 2024 3 5) 9 30 0 0))]])]"

definition example_wire :: pydict where
  "example_wire =
     [(''date'', VStr ''2024-03-05''),
      (''name'', VStr ''Rapat''),
      (''category'', VStr ''administrasi''),
      (''duration'', VFloat 2),
      (''attachments'',
         VList [VDict [(''filename'', VStr ''a.pdf''),
                       (''uploaded'', VStr ''2024-03-05T09:30:00'')]]),
      (''id'', VStr ''65e6f0a1b2c3d4e5f6a7b8c9'')]"

definition example_store :: store where
  "example_store = (\<lambda>a. if a = 0 then Some example_activity else None)"

definition example_now :: datetime where
  "example_now = DateTime (Date 2024 3 15) 10 30 0 0"

text \<open>The body of a partial update that sets no field.\<close>

definition no_fields :: activity_update where
  "no_fields =
     \<lparr>upd_date = None, upd_name = None, upd_category = None, upd_duration = None,
      upd_result = None, upd_notes = None, upd_income = None, upd_expense = None,
      upd_finance_category = None\<rparr>"

text \<open>
  The field \<open>k\<close> of a record holds text in which the search term occurs, letters compared
  regardless of case.
\<close>

definition field_has :: "string \<Rightarrow> pydict \<Rightarrow> string \<Rightarrow> bool" where
  "field_has search doc k =
     (case dict_get doc k of Some (VStr s) \<Rightarrow> ci_substring search s | _ \<Rightarrow> False)"

text \<open>
  Two activities of March 2024, one with the empty text for its category and one with
  the category \<open>unknown\<close>.
\<close>

definition example_blank :: pydict where
  "example_blank =
     [(''_id'', VObjectId ''65e6f0a1b2c3d4e5f6a7b8ca''),
      (''date'', VDate (Date 2024 3 7)),
      (''name'', VStr ''Arsip''),
      (''category'', VStr ''''),
      (''duration'', VFloat 2)]"

definition example_unknown :: pydict where
  "example_unknown =
     [(''_id'', VObjectId ''65e6f0a1b2c3d4e5f6a7b8cb''),
      (''date'', VDate (Date 2024 3 9)),
      (''name'', VStr ''Lain-lain''),
      (''category'', VStr ''unknown''),
      (''duration'', VFloat 2)]"

text \<open>No two keys of a list of counts are the same key.\<close>

fun keys_apart :: "(pyval \<times> nat) list \<Rightarrow> bool" where
  "keys_apart [] = True"
| "keys_apart ((k, n) # g) = ((\<forall>(k', n') \<in> set g. \<not> same_key k k') \<and> keys_apart g)"

text \<open>A text without a carriage return or a line feed.\<close>

definition no_break :: "string \<Rightarrow> bool" where
  "no_break s = (CR \<notin> set s \<and> LF \<notin> set s)"

text \<open>A serialized activity whose notes are two lines.\<close>

definition example_multiline :: pydict where
  "example_multiline =
     [(''date'', VStr ''2024-03-05''),
      (''name'', VStr ''Rapat''),
      (''category'', VStr ''administrasi''),
      (''duration'', VFloat 2),
      (''notes'', VStr (''baris 1'' @ [LF] @ ''baris 2'')),
      (''id'', VStr ''65e6f0a1b2c3d4e5f6a7b8cc'')]"

text \<open>
  A rendering of amounts with two decimals that is right on whole amounts; an activity
  of March 2024 and one of January 2023, both with an income and an expense; an activity
  of March 2024 whose category is a list; and the clock on the last day of the year 9999.
\<close>

definition example_fmt2f :: "rat \<Rightarrow> string" where
  "example_fmt2f q = str_int \<lfloor>q\<rfloor> @ ''.00''"

definition example_spend :: pydict where
  "example_spend =
     [(''_id'', VObjectId ''65e6f0a1b2c3d4e5f6a7b8ce''),
      (''date'', VDate (Date 2024 3 12)),
      (''name'', VStr ''Belanja''),
      (''category'', VStr ''keuangan''),
      (''duration'', VFloat 2),
      (''income'', VFloat 20000),
      (''expense'', VFloat 50000)]"

definition example_old :: pydict where
  "example_old =
     [(''_id'', VObjectId ''65e6f0a1b2c3d4e5f6a7b8cd''),
      (''date'', VDate (Date 2023 1 20)),
      (''name'', VStr ''Audit''),
      (''category'', VStr ''keuangan''),
      (''duration'', VFloat 2),
      (''income'', VFloat 75000),
      (''expense'', VFloat 10000)]"

definition example_listed :: pydict where
  "example_listed =
     [(''_id'', VObjectId ''65e6f0a1b2c3d4e5f6a7b8cf''),
      (''date'', VDate (Date 2024 3 20)),
      (''name'', VStr ''Lembur''),
      (''category'', VList [VStr ''administrasi'', VStr ''keuangan'']),
      (''duration'', VFloat 2)]"

definition example_last_day :: datetime where
  "example_last_day = DateTime (Date 9999 12 31) 23 59 0 0"

section \<open>Properties\<close>

subsection \<open>The serializer as a map over the entries\<close>

lemma serialize_doc_unfold:
  "serialize_doc r doc = (if doc = [] then doc else foldl (serialize_entry r) (rekey r doc) (rekey r doc))"
proof -
  have "(\<lambda>doc (k, v).
                 let doc2 = (if is_temporal v then dict_set k (VStr (isoformat v)) doc else doc) in
                 (case v of
                    VList items \<Rightarrow>
                      dict_set k
                        (VList (map (\<lambda>item. case item of
                                       VDict nested \<Rightarrow> VDict (serialize_doc r nested)
                                     | _ \<Rightarrow> item) items)) doc2
                  | _ \<Rightarrow> doc2)) = serialize_entry r"
    by (auto simp: fun_eq_iff serialize_entry_def serialize_value_def [abs_def] split: pyval.splits)
  then show ?thesis
    by (subst serialize_doc.simps) (simp add: Let_def)
qed

lemma update_mid:
  "k \<notin> fst ` set pre \<Longrightarrow> dict_set k w (pre @ (k, v) # xs) = pre @ (k, w) # xs"
  by (induction pre) auto

lemma serialize_entry_mid:
  assumes "k \<notin> fst ` set pre"
  shows "serialize_entry r (pre @ (k, v) # xs) (k, v) = pre @ (k, convert r v) # xs"
  using assms by (cases v) (simp_all add: serialize_entry_def convert_def update_mid)

lemma foldl_serialize_entry:
  "distinct (map fst (pre @ xs)) \<Longrightarrow>
   foldl (serialize_entry r) (pre @ xs) xs = pre @ map_ran (\<lambda>k. convert r) xs"
proof (induction xs arbitrary: pre)
  case Nil
  then show ?case by simp
next
  case (Cons e xs)
  obtain k v where e: "e = (k, v)" by (cases e)
  from Cons.prems e have notin: "k \<notin> fst ` set pre" by auto
  from Cons.prems e have "distinct (map fst ((pre @ [(k, convert r v)]) @ xs))" by auto
  from Cons.IH [OF this] notin e show ?case
    by (simp add: serialize_entry_mid)
qed

lemma distinct_rekey: "distinct (map fst d) \<Longrightarrow> distinct (map fst (rekey r d))"
  by (simp add: rekey_def distinct_update distinct_delete split: option.splits)

lemma serialize_doc_eq:
  assumes "distinct (map fst d)"
  shows "serialize_doc r d = map_ran (\<lambda>k. convert r) (rekey r d)"
proof (cases "d = []")
  case True
  then show ?thesis by (simp add: serialize_doc_unfold rekey_def)
next
  case False
  from assms have "distinct (map fst ([] @ rekey r d))" by (simp add: distinct_rekey)
  from foldl_serialize_entry [OF this] False show ?thesis
    by (simp add: serialize_doc_unfold)
qed


lemma serialize_value_simps [simp]:
  "serialize_value r (VDict nested) = VDict (serialize_doc r nested)"
  "serialize_value r VNone = VNone"
  "serialize_value r (VInt i) = VInt i"
  "serialize_value r (VFloat q) = VFloat q"
  "serialize_value r (VStr s) = VStr s"
  "serialize_value r (VObjectId h) = VObjectId h"
  "serialize_value r (VDate d) = VDate d"
  "serialize_value r (VDateTime t) = VDateTime t"
  "serialize_value r (VList xs) = VList xs"
  by (simp_all add: serialize_value_def)

lemma set_dict_set: "set (dict_set k v d) \<subseteq> insert (k, v) (set d)"
  by (induction d) auto

lemma rekey_entry:
  assumes "(k, v) \<in> set (rekey r d)"
  shows "(k, v) \<in> set d \<or> (\<exists>s. v = VStr s)"
proof (cases "dict_get d ''_id''")
  case None
  with assms show ?thesis by (simp add: rekey_def)
next
  case (Some w)
  show ?thesis
  proof (cases "w = VNone")
    case True
    with Some assms show ?thesis by (simp add: rekey_def)
  next
    case False
    with Some assms have "(k, v) \<in> set (dict_set ''id'' (VStr (py_str r w)) d)"
      by (auto simp: rekey_def AList.delete_eq)
    with set_dict_set show ?thesis by blast
  qed
qed

lemma rekey_id_gone: "dict_get (rekey r d) ''_id'' = None \<or> dict_get (rekey r d) ''_id'' = Some VNone"
  by (cases "dict_get d ''_id''") (auto simp: rekey_def delete_conv)

lemma convert_VNone [simp]: "convert r VNone = VNone"
  by (simp add: convert_def)

lemma map_ran_idem:
  "(\<And>k v. (k, v) \<in> set d \<Longrightarrow> f k (f k v) = f k v) \<Longrightarrow> map_ran f (map_ran f d) = map_ran f d"
  by (induction d) auto

lemma rekey_fixed:
  assumes "dict_get d ''_id'' = None \<or> dict_get d ''_id'' = Some VNone"
  shows "rekey r d = d"
  using assms by (auto simp: rekey_def)

lemma wf_entry: "list_all (\<lambda>(k, v). wf_val v) d \<Longrightarrow> (k, v) \<in> set d \<Longrightarrow> wf_val v"
  by (auto simp: list_all_iff)

lemma convert_not_temporal: "\<not> is_temporal (convert r v)"
  by (cases v) (simp_all add: convert_def)

lemma convert_VStr [simp]: "convert r (VStr s) = VStr s"
  by (simp add: convert_def)

subsection \<open>Evaluation on the example\<close>

lemma zero_pad_eval:
  "zero_pad 4 2024 = ''2024''" "zero_pad 2 3 = ''03''" "zero_pad 2 5 = ''05''"
  "zero_pad 2 9 = ''09''" "zero_pad 2 30 = ''30''" "zero_pad 2 0 = ''00''"
  by (simp_all add: zero_pad_def str_nat.simps digit_char_def Let_def)

lemma serialize_example: "serialize_doc example_repr example_activity = example_wire"
  by (simp add: example_activity_def example_wire_def serialize_doc_unfold rekey_def
      serialize_entry_def date_iso_def datetime_iso_def zero_pad_eval)

lemma wf_example: "wf_val (VDict example_activity)"
  by (simp add: example_activity_def)

subsection \<open>The serializer works in place\<close>

text \<open>
  \<^bold>\<open>C2\<close>, as stated, says that the serializer works on a copy, so that the record passed
  to it is unchanged after the call. It fails on the example: the record at address 0
  holds \<open>example_activity\<close> before the call and \<open>example_wire\<close> after it, without its
  \<open>_id\<close>, with its date as text and with its attachment serialized.
\<close>

theorem serialize_doc_copy_counterexample:
  "example_store 0 = Some example_activity
   \<and> snd (call_serialize_doc example_repr example_store 0) 0 = Some example_wire
   \<and> example_wire \<noteq> example_activity"
  by (simp add: call_serialize_doc_def example_store_def serialize_example)
     (simp add: example_wire_def example_activity_def)

text \<open>
  \<^bold>\<open>C2\<close>, amended. The serializer makes no copy: it returns the reference it was given,
  and the record at that reference is overwritten with its wire form, while every other
  record of the store is left as it was. After the call the record has no \<open>_id\<close> field
  other than a null one; if it had a non-null \<open>_id\<close>, that field is gone, the field \<open>id\<close>
  holds its text, and the record differs from what it was; no field holds a date or a
  date-time; and a list field holds its items with the nested records serialized.
\<close>

theorem serialize_doc_in_place:
  assumes "s a = Some doc" and "distinct (map fst doc)"
  shows "fst (call_serialize_doc r s a) = a
     \<and> snd (call_serialize_doc r s a) a = Some (serialize_doc r doc)
     \<and> (\<forall>b. b \<noteq> a \<longrightarrow> snd (call_serialize_doc r s a) b = s b)
     \<and> (dict_get (serialize_doc r doc) ''_id'' = None
          \<or> dict_get (serialize_doc r doc) ''_id'' = Some VNone)
     \<and> (\<forall>v. dict_get doc ''_id'' = Some v \<and> v \<noteq> VNone \<longrightarrow>
            dict_get (serialize_doc r doc) ''_id'' = None
          \<and> dict_get (serialize_doc r doc) ''id'' = Some (VStr (py_str r v))
          \<and> snd (call_serialize_doc r s a) a \<noteq> s a)
     \<and> (\<forall>k v. (k, v) \<in> set (serialize_doc r doc) \<longrightarrow> \<not> is_temporal v)
     \<and> (\<forall>k items. dict_get doc k = Some (VList items) \<and> k \<noteq> ''_id''
            \<and> (k \<noteq> ''id'' \<or> dict_get doc ''_id'' = None \<or> dict_get doc ''_id'' = Some VNone) \<longrightarrow>
            dict_get (serialize_doc r doc) k = Some (VList (map (serialize_value r) items)))"
proof -
  have ser: "serialize_doc r doc = map_ran (\<lambda>k. convert r) (rekey r doc)"
    using assms(2) by (rule serialize_doc_eq)
  have call: "call_serialize_doc r s a = (a, s(a \<mapsto> serialize_doc r doc))"
    using assms(1) by (simp add: call_serialize_doc_def)
  have gone: "dict_get (serialize_doc r doc) ''_id'' = None
      \<or> dict_get (serialize_doc r doc) ''_id'' = Some VNone"
    using rekey_id_gone [of r doc] by (auto simp: ser map_ran_conv)
  have rekeyed: "dict_get (serialize_doc r doc) ''_id'' = None
      \<and> dict_get (serialize_doc r doc) ''id'' = Some (VStr (py_str r v))
      \<and> snd (call_serialize_doc r s a) a \<noteq> s a"
    if "dict_get doc ''_id'' = Some v" "v \<noteq> VNone" for v
  proof -
    from that have rk: "rekey r doc = dict_pop ''_id'' (dict_set ''id'' (VStr (py_str r v)) doc)"
      by (simp add: rekey_def)
    have 1: "dict_get (serialize_doc r doc) ''_id'' = None"
      by (simp add: ser map_ran_conv rk delete_conv)
    have 2: "dict_get (serialize_doc r doc) ''id'' = Some (VStr (py_str r v))"
      by (simp add: ser map_ran_conv rk delete_conv update_conv)
    from 1 that(1) have "serialize_doc r doc \<noteq> doc"
      by auto
    with 1 2 assms(1) show ?thesis
      by (simp add: call)
  qed
  have temporal: "\<not> is_temporal v" if "(k, v) \<in> set (serialize_doc r doc)" for k v
    using that by (auto simp: ser map_ran_def convert_not_temporal)
  have lists: "dict_get (serialize_doc r doc) k = Some (VList (map (serialize_value r) items))"
    if "dict_get doc k = Some (VList items)" "k \<noteq> ''_id''"
      "k \<noteq> ''id'' \<or> dict_get doc ''_id'' = None \<or> dict_get doc ''_id'' = Some VNone" for k items
  proof -
    from that have "dict_get (rekey r doc) k = Some (VList items)"
      by (auto simp: rekey_def delete_conv update_conv split: option.splits)
    then show ?thesis
      by (simp add: ser map_ran_conv convert_def)
  qed
  from gone rekeyed temporal lists show ?thesis
    by (simp add: call)
qed

theorem serialize_doc_in_place_witness:
  "example_store 0 = Some example_activity
   \<and> distinct (map fst example_activity)
   \<and> fst (call_serialize_doc example_repr example_store 0) = 0
   \<and> snd (call_serialize_doc example_repr example_store 0) 0 = Some example_wire"
  using serialize_doc_in_place [of example_store 0 example_activity example_repr]
  by (simp add: serialize_example) (simp add: example_store_def example_activity_def)

subsection \<open>The serializer is idempotent\<close>

text \<open>
  \<^bold>\<open>C5\<close>. Serializing a serialized record changes nothing: for every record (a dictionary
  whose keys, and the keys of the records nested in it, are distinct),
  \<open>serialize (serialize r) = serialize r\<close>. The second pass finds no \<open>_id\<close> to move, no date
  to convert (a date is text by then, and text is left alone), and nested records that
  are serialized already.
\<close>

theorem serialize_doc_idempotent:
  "wf_val (VDict doc) \<Longrightarrow> serialize_doc r (serialize_doc r doc) = serialize_doc r doc"
proof (induction r doc rule: serialize_doc.induct)
  case (1 r doc)
  let ?cv = "map_ran (\<lambda>k. convert r)"
  let ?d1 = "rekey r doc"
  from "1.prems" have dist: "distinct (map fst doc)" and wf: "list_all (\<lambda>(k, v). wf_val v) doc"
    by simp_all
  have ser: "serialize_doc r doc = ?cv ?d1"
    using dist by (rule serialize_doc_eq)
  have dist1: "distinct (map fst ?d1)"
    using dist by (rule distinct_rekey)
  from dist1 have dist2: "distinct (map fst (?cv ?d1))"
    by (rule distinct_map_ran)
  have "dict_get (?cv ?d1) ''_id'' = None \<or> dict_get (?cv ?d1) ''_id'' = Some VNone"
    using rekey_id_gone [of r doc] by (auto simp: map_ran_conv)
  then have fixed: "rekey r (?cv ?d1) = ?cv ?d1"
    by (rule rekey_fixed)
  have conv2: "convert r (convert r v) = convert r v" if "(k, v) \<in> set ?d1" for k v
  proof (cases v)
    case (VList items)
    have "serialize_value r (serialize_value r item) = serialize_value r item"
      if "item \<in> set items" for item
    proof (cases item)
      case (VDict nested)
      from \<open>(k, v) \<in> set ?d1\<close> VList have "(k, VList items) \<in> set doc"
        by (auto dest: rekey_entry)
      with wf have "wf_val (VList items)"
        by (rule wf_entry)
      with that have "wf_val item"
        by (simp add: list_all_iff)
      with VDict have "wf_val (VDict nested)"
        by simp
      moreover have "doc \<noteq> []"
        using \<open>(k, VList items) \<in> set doc\<close> by auto
      ultimately have "serialize_doc r (serialize_doc r nested) = serialize_doc r nested"
        using "1.IH" [OF _ refl \<open>(k, v) \<in> set ?d1\<close> _ refl _ that VDict] VList
        by simp
      with VDict show ?thesis by simp
    qed simp_all
    with VList show ?thesis by (simp add: convert_def)
  qed (simp_all add: convert_def)
  have "serialize_doc r (?cv ?d1) = ?cv (rekey r (?cv ?d1))"
    using dist2 by (rule serialize_doc_eq)
  also have "\<dots> = ?cv (?cv ?d1)"
    by (simp add: fixed)
  also have "\<dots> = ?cv ?d1"
    using conv2 by (rule map_ran_idem)
  finally show ?case
    by (simp add: ser)
qed

theorem serialize_doc_idempotent_witness:
  "wf_val (VDict example_activity)
   \<and> serialize_doc example_repr (serialize_doc example_repr example_activity) = example_wire"
proof -
  have "serialize_doc example_repr (serialize_doc example_repr example_activity)
      = serialize_doc example_repr example_activity"
    using wf_example by (rule serialize_doc_idempotent)
  with wf_example show ?thesis
    by (simp only: serialize_example simp_thms)
qed

subsection \<open>The month window\<close>

lemma days_before_month_step:
  assumes "1 \<le> m"
  shows "days_before_month y (m + 1) = days_before_month y m + days_in_month y m"
proof -
  from assms have "[1..m] = [1..m - 1] @ [m]"
    by (simp add: upto_rec2)
  then show ?thesis
    by (simp add: days_before_month_def)
qed

lemma upto_1_11: "[1..11] = [1,2,3,4,5,6,7,8,9,10,11::int]"
  by code_simp

lemma days_before_month_12: "days_before_month y 12 = 334 + (if is_leap y then 1 else 0)"
  by (simp add: days_before_month_def upto_1_11 days_in_month_def)

lemma days_before_month_1: "days_before_month y 1 = 0"
  by (simp add: days_before_month_def)

lemma div_step:
  fixes y n :: int
  assumes "0 < n"
  shows "y div n = (y - 1) div n + (if y mod n = 0 then 1 else 0)"
proof (cases "y mod n = 0")
  case True
  have "y - 1 = n * (y div n - 1) + (n - 1)"
    using True mult_div_mod_eq [of n y] by (simp add: algebra_simps)
  then have "(y - 1) div n = y div n - 1"
    by (rule int_div_pos_eq) (use assms in simp_all)
  with True show ?thesis by simp
next
  case False
  from assms have "0 \<le> y mod n" "y mod n < n"
    by simp_all
  with False have r: "0 \<le> y mod n - 1" "y mod n - 1 < n"
    by simp_all
  have "y - 1 = n * (y div n) + (y mod n - 1)"
    using mult_div_mod_eq [of n y] by simp
  then have "(y - 1) div n = y div n"
    using r by (rule int_div_pos_eq)
  with False show ?thesis by simp
qed

lemma mod_400_100: "(y::int) mod 400 = 0 \<Longrightarrow> y mod 100 = 0"
  using mod_mod_cancel [of 100 400 y] by simp

lemma mod_100_4: "(y::int) mod 100 = 0 \<Longrightarrow> y mod 4 = 0"
  using mod_mod_cancel [of 4 100 y] by simp

lemma days_before_year_step:
  "days_before_year (y + 1) = days_before_year y + 365 + (if is_leap y then 1 else 0)"
proof -
  define b4 b100 b400 :: int
    where "b4 = (if y mod 4 = 0 then 1 else 0)"
      and "b100 = (if y mod 100 = 0 then 1 else 0)"
      and "b400 = (if y mod 400 = 0 then 1 else 0)"
  have e4: "y div 4 = (y - 1) div 4 + b4"
    unfolding b4_def by (rule div_step) simp
  have e100: "y div 100 = (y - 1) div 100 + b100"
    unfolding b100_def by (rule div_step) simp
  have e400: "y div 400 = (y - 1) div 400 + b400"
    unfolding b400_def by (rule div_step) simp
  have next_year: "days_before_year (y + 1) = y * 365 + y div 4 - y div 100 + y div 400"
    by (simp add: days_before_year_def)
  have this_year: "days_before_year y = (y - 1) * 365 + (y - 1) div 4 - (y - 1) div 100 + (y - 1) div 400"
    by (simp add: days_before_year_def)
  have step: "days_before_year (y + 1) = days_before_year y + 365 + (b4 - b100 + b400)"
    unfolding next_year this_year e4 e100 e400 by (simp add: algebra_simps)
  have "b4 - b100 + b400 = (if is_leap y then 1 else 0)"
    using mod_400_100 [of y] mod_100_4 [of y]
    by (cases "y mod 4 = 0"; cases "y mod 100 = 0"; cases "y mod 400 = 0")
       (simp_all add: b4_def b100_def b400_def is_leap_def)
  with step show ?thesis by simp
qed

lemma mk_datetime_first:
  assumes "1 \<le> m" "m \<le> 12" "1 \<le> y" "y \<le> 9999"
  shows "mk_datetime y m 1 = Inr (DateTime (Date y m 1) 0 0 0 0)"
  using assms by (simp add: mk_datetime_def c_int_def days_in_month_def)

text \<open>
  \<^bold>\<open>C3\<close>, as stated, covers every month of every year a date can hold, the years 1 to
  9999. It fails for December 9999: the end of the window would be 1 January 10000,
  which no date can hold, and the constructor raises \<open>ValueError\<close>.
\<close>

theorem month_window_december_9999_counterexample:
  "month_window example_now (Some 12) (Some 9999) = Inl ValueError"
  by (simp add: month_window_def int_or_def mk_datetime_def c_int_def days_in_month_def)

text \<open>
  \<^bold>\<open>C3\<close>, amended. For every month in 1..12 of every year in 1..9999, December 9999
  excepted, the window starts on the first day of the month and ends on the first day of
  the next month, which for December is 1 January of the next year; the start is before
  the end, and the days from the start to the end are the days of the month. That window
  is the date condition of the filter of \<open>list_activities\<close>.
\<close>

theorem month_window_valid:
  assumes "1 \<le> m" "m \<le> 12" "1 \<le> y" "y \<le> 9999" "m \<noteq> 12 \<or> y \<noteq> 9999"
  shows "month_window now (Some m) (Some y)
           = Inr (y, m, Date y m 1, if m = 12 then Date (y + 1) 1 1 else Date y (m + 1) 1)
     \<and> date_lt (Date y m 1) (if m = 12 then Date (y + 1) 1 1 else Date y (m + 1) 1)
     \<and> days_between (Date y m 1) (if m = 12 then Date (y + 1) 1 1 else Date y (m + 1) 1)
           = days_in_month y m
     \<and> list_activities_query now (Some m) (Some y) None None
           = [date_range (Date y m 1) (if m = 12 then Date (y + 1) 1 1 else Date y (m + 1) 1)]"
proof (cases "m = 12")
  case True
  with assms have y: "y + 1 \<le> 9999" "1 \<le> y + 1" by auto
  have start: "mk_datetime y 12 1 = Inr (DateTime (Date y 12 1) 0 0 0 0)"
    using assms by (simp add: mk_datetime_first)
  have stop: "mk_datetime (y + 1) 1 1 = Inr (DateTime (Date (y + 1) 1 1) 0 0 0 0)"
    using y by (simp add: mk_datetime_first)
  have win: "month_window now (Some 12) (Some y) = Inr (y, 12, Date y 12 1, Date (y + 1) 1 1)"
    using assms start stop by (simp add: month_window_def int_or_def)
  have lt: "date_lt (Date y 12 1) (Date (y + 1) 1 1)"
    by (simp add: date_lt_def)
  have days: "days_between (Date y 12 1) (Date (y + 1) 1 1) = days_in_month y 12"
    by (simp add: days_between_def toordinal_def days_before_year_step days_before_month_12
        days_before_month_1 days_in_month_def)
  have "list_activities_query now (Some 12) (Some y) None None
      = [date_range (Date y 12 1) (Date (y + 1) 1 1)]"
    using assms by (simp add: list_activities_query_def win int_truthy_def str_truthy_def)
  with True win lt days show ?thesis by simp
next
  case False
  with assms have m: "1 \<le> m + 1" "m + 1 \<le> 12" by auto
  have start: "mk_datetime y m 1 = Inr (DateTime (Date y m 1) 0 0 0 0)"
    using assms by (simp add: mk_datetime_first)
  have stop: "mk_datetime y (m + 1) 1 = Inr (DateTime (Date y (m + 1) 1) 0 0 0 0)"
    using m assms by (simp add: mk_datetime_first)
  have win: "month_window now (Some m) (Some y) = Inr (y, m, Date y m 1, Date y (m + 1) 1)"
    using assms False start stop by (simp add: month_window_def int_or_def)
  have lt: "date_lt (Date y m 1) (Date y (m + 1) 1)"
    by (simp add: date_lt_def)
  have days: "days_between (Date y m 1) (Date y (m + 1) 1) = days_in_month y m"
    using assms by (simp add: days_between_def toordinal_def days_before_month_step)
  have "list_activities_query now (Some m) (Some y) None None
      = [date_range (Date y m 1) (Date y (m + 1) 1)]"
    using assms by (simp add: list_activities_query_def win int_truthy_def str_truthy_def)
  with False win lt days show ?thesis by simp
qed

theorem month_window_valid_witness:
  "month_window example_now (Some 2) (Some 2024) = Inr (2024, 2, Date 2024 2 1, Date 2024 3 1)
   \<and> date_lt (Date 2024 2 1) (Date 2024 3 1)
   \<and> days_between (Date 2024 2 1) (Date 2024 3 1) = 29
   \<and> month_window example_now (Some 12) (Some 2023) = Inr (2023, 12, Date 2023 12 1, Date 2024 1 1)
   \<and> days_between (Date 2023 12 1) (Date 2024 1 1) = 31"
  using month_window_valid [of 2 2024 example_now] month_window_valid [of 12 2023 example_now]
  by (simp add: days_in_month_def is_leap_def)

subsection \<open>A window that cannot be built\<close>

text \<open>
  The filtered list catches the exception of the window and goes on without a date
  condition: its answer is the answer to the same request without month and year.
\<close>

lemma list_activities_fails_open:
  assumes "month_window now month year = Inl e"
  shows "list_activities_query now month year category search
           = list_activities_query now None None category search"
    and "list_activities r db now month year category search
           = list_activities r db now None None category search"
  using assms by (simp_all add: list_activities_def list_activities_query_def int_truthy_def)

text \<open>The dashboard and the recap let the same exception through.\<close>

lemma window_failure_propagates:
  assumes "month_window now month year = Inl e"
  shows "dashboard db now month year = Inl e"
    and "monthly_recap r fmt2f db now month year = Inl e"
  using assms by (simp_all add: dashboard_def monthly_recap_def)

lemma month_window_13: "month_window now (Some 13) (Some 2024) = Inl ValueError"
  by (simp add: month_window_def int_or_def mk_datetime_def c_int_def)

text \<open>
  \<^bold>\<open>C1\<close>. A month for which the first day cannot be built, such as 13, is to be caught
  and the request answered without a date condition, by the filtered list, the dashboard
  and the recap alike. The filtered list does so (\<open>list_activities_fails_open\<close>). The
  dashboard and the recap build the same window outside any \<^verbatim>\<open>try\<close>: with month 13 the
  \<open>ValueError\<close> leaves the handler, whatever the collection holds.
\<close>

theorem dashboard_recap_month_13_raise:
  "dashboard db now (Some 13) (Some 2024) = Inl ValueError
   \<and> monthly_recap r fmt2f db now (Some 13) (Some 2024) = Inl ValueError
   \<and> list_activities r db now (Some 13) (Some 2024) category search
       = list_activities r db now None None category search"
  using list_activities_fails_open(2) [OF month_window_13]
  by (simp add: dashboard_def monthly_recap_def month_window_13)

subsection \<open>Identifiers\<close>









subsection \<open>An update that sets nothing\<close>

text \<open>
  \<^bold>\<open>C8\<close>. A partial update whose body sets no field answers \<open>updated = False\<close> and leaves
  the collection as it was, the field \<open>updated_at\<close> of every record included; it raises
  nothing, whatever the identifier is, since the identifier is not even decoded.
\<close>

theorem update_activity_no_fields:
  "update_activity db now activity_id no_fields = Inr (False, db)"
  by (simp add: update_activity_def no_fields_def model_dump_exclude_none_def dump_field_def)

theorem update_activity_no_fields_witness:
  "update_activity [example_activity] example_now ''not-an-id'' no_fields
     = Inr (False, [example_activity])"
  using update_activity_no_fields [of "[example_activity]" example_now "''not-an-id''"]
  by simp

subsection \<open>The search filter\<close>

lemma rx_compile_plain:
  "\<forall>c \<in> set p. \<not> rx_meta c \<Longrightarrow> rx_compile p = Some (map RChar p)"
  by (induction p) (auto simp: rx_meta_def)

lemma rx_here_plain: "rx_here True (map RChar p) s = prefix (lower p) (lower s)"
  by (induction p arbitrary: s) (case_tac [2] s, auto simp: lower_def)

lemma rx_search_plain: "rx_search True (map RChar p) s = sublist (lower p) (lower s)"
proof (induction s)
  case Nil
  show ?case by (cases p) (simp_all add: lower_def)
next
  case (Cons c s)
  have "rx_search True (map RChar p) (c # s)
      = (prefix (lower p) (lower (c # s)) \<or> sublist (lower p) (lower s))"
    by (simp add: rx_here_plain Cons.IH)
  also have "\<dots> = sublist (lower p) (lower (c # s))"
    by (simp add: lower_def sublist_Cons_right)
  finally show ?case .
qed

lemma regex_search_plain:
  assumes "\<forall>c \<in> set p. \<not> rx_meta c"
  shows "regex_search p ''i'' s = ci_substring p s"
  using assms by (simp add: regex_search_def rx_compile_plain rx_search_plain ci_substring_def)

lemma search_query:
  "search \<noteq> [] \<Longrightarrow> list_activities_query now None None None (Some search)
     = [Or [Field ''name'' (Regex search ''i''), Field ''result'' (Regex search ''i''),
            Field ''notes'' (Regex search ''i'')]]"
  by (simp add: list_activities_query_def int_truthy_def str_truthy_def)

lemma lower_eval: "lower ''r.pat'' = ''r.pat''" "lower ''Rapat'' = ''rapat''" "lower ''rap'' = ''rap''"
  by (simp_all add: lower_def lower_char_def)

text \<open>
  \<^bold>\<open>C4\<close>, as stated, has the filter match a record exactly when the search term occurs
  in one of the three fields as a literal substring. The term is given to the store as a
  regular expression: \<open>r.pat\<close> matches the name \<open>Rapat\<close>, in which \<open>r.pat\<close> does not occur
  (and the record has neither \<open>result\<close> nor \<open>notes\<close>).
\<close>

theorem search_filter_regex_counterexample:
  "matches (list_activities_query example_now None None None (Some ''r.pat'')) example_activity
   \<and> \<not> ci_substring ''r.pat'' ''Rapat''
   \<and> dict_get example_activity ''name'' = Some (VStr ''Rapat'')
   \<and> dict_get example_activity ''result'' = None
   \<and> dict_get example_activity ''notes'' = None"
  by (simp add: search_query matches_def example_activity_def regex_search_def rx_meta_def
      ci_substring_def lower_eval sublist_code prefix_code lower_char_def)

text \<open>
  \<^bold>\<open>C4\<close>, amended. For every search term that is not empty and holds none of the
  characters that a regular expression reads as an operator, the filter matches a record
  exactly when the term occurs, letters compared regardless of case, in the text of at
  least one of the fields \<open>name\<close>, \<open>result\<close> and \<open>notes\<close>; and the store answers with the
  records of the collection that do.
\<close>

theorem search_filter_plain:
  assumes "search \<noteq> []" and "\<forall>c \<in> set search. \<not> rx_meta c"
  shows "matches (list_activities_query now None None None (Some search)) doc
           = (field_has search doc ''name'' \<or> field_has search doc ''result''
               \<or> field_has search doc ''notes'')
     \<and> get_documents db (list_activities_query now None None None (Some search))
           = Inr (filter (\<lambda>doc. field_has search doc ''name'' \<or> field_has search doc ''result''
               \<or> field_has search doc ''notes'') db)"
proof -
  have holds: "cond_holds (Regex search ''i'') v
      = (case v of Some (VStr s) \<Rightarrow> ci_substring search s | _ \<Rightarrow> False)" for v
    using assms(2) by (simp add: regex_search_plain split: option.splits pyval.splits)
  have m: "matches (list_activities_query now None None None (Some search)) d
           = (field_has search d ''name'' \<or> field_has search d ''result''
               \<or> field_has search d ''notes'')" for d
    using assms(1) by (simp add: search_query matches_def holds field_has_def del: cond_holds.simps)
  have "regex_modelled search ''i''"
    using assms(2) by (simp add: regex_modelled_def rx_compile_plain)
  then have "get_documents db (list_activities_query now None None None (Some search))
      = Inr (filter (matches (list_activities_query now None None None (Some search))) db)"
    using assms(1) by (simp add: search_query get_documents_def)
  with m show ?thesis
    by (simp add: m [abs_def])
qed

theorem search_filter_plain_witness:
  "''rap'' \<noteq> [] \<and> matches (list_activities_query example_now None None None (Some ''rap'')) example_activity"
  using search_filter_plain [of "''rap''" example_now example_activity "[]"]
  by (simp add: rx_meta_def field_has_def example_activity_def ci_substring_def lower_eval sublist_code prefix_code)

subsection \<open>The dashboard counts\<close>

lemma sum_bump: "sum_list (map snd (bump k g)) = Suc (sum_list (map snd g))"
  by (induction k g rule: bump.induct) auto

lemma sum_foldl_bump:
  "sum_list (map snd (foldl (\<lambda>g d. bump (key d) g) g0 docs)) = sum_list (map snd g0) + length docs"
  by (induction docs arbitrary: g0) (simp_all add: sum_bump)

lemma sum_group_count: "sum_list (map snd (group_count field docs)) = length docs"
  by (simp add: group_count_def sum_foldl_bump)

lemma keys_bump: "fst ` set (bump k g) \<subseteq> insert k (fst ` set g)"
  by (induction k g rule: bump.induct) auto

lemma keys_foldl_bump:
  "fst ` set (foldl (\<lambda>g d. bump (key d) g) g0 docs) \<subseteq> fst ` set g0 \<union> key ` set docs"
proof (induction docs arbitrary: g0)
  case Nil
  show ?case by simp
next
  case (Cons d docs)
  from Cons.IH [of "bump (key d) g0"] keys_bump [of "key d" g0] show ?case
    by auto
qed

lemma keys_group_count:
  "fst ` set (group_count field docs) \<subseteq> (\<lambda>d. get_or_none d field) ` set docs"
  using keys_foldl_bump [of "\<lambda>d. get_or_none d field" "[]" docs]
  by (simp add: group_count_def)

lemma apart_bump: "keys_apart g \<Longrightarrow> keys_apart (bump k g)"
proof (induction k g rule: bump.induct)
  case (1 k)
  show ?case by simp
next
  case (2 k k' n g)
  show ?case
  proof (cases "same_key k' k")
    case True
    with "2.prems" show ?thesis by simp
  next
    case False
    with "2.prems" "2.IH" have "keys_apart (bump k g)" by simp
    moreover have "\<forall>(j, m) \<in> set (bump k g). \<not> same_key k' j"
    proof -
      have "\<not> same_key k' j" if "j \<in> fst ` set (bump k g)" for j
      proof -
        from that keys_bump [of k g] have "j = k \<or> j \<in> fst ` set g"
          by blast
        then show ?thesis
        proof
          assume "j = k"
          with False show ?thesis by simp
        next
          assume "j \<in> fst ` set g"
          then obtain b where "(j, b) \<in> set g" by auto
          with "2.prems" show ?thesis by auto
        qed
      qed
      then show ?thesis by force
    qed
    ultimately show ?thesis using False by simp
  qed
qed

lemma apart_foldl_bump:
  "keys_apart g0 \<Longrightarrow> keys_apart (foldl (\<lambda>g d. bump (key d) g) g0 docs)"
  by (induction docs arbitrary: g0) (simp_all add: apart_bump)

lemma apart_group_count: "keys_apart (group_count field docs)"
  by (simp add: group_count_def apart_foldl_bump)

lemma count_put_fresh:
  "\<forall>(k', n') \<in> set acc. \<not> same_key k' k \<Longrightarrow> count_put k n acc = acc @ [(k, n)]"
  by (induction acc) auto

lemma keys_apart_append:
  "keys_apart (acc @ (k, n) # items) \<Longrightarrow>
     (\<forall>(k', n') \<in> set acc. \<not> same_key k' k) \<and> keys_apart ((acc @ [(k, n)]) @ items)"
  by (induction acc) auto

lemma label_counts_apart:
  assumes "keys_apart (acc @ items)"
    and "\<forall>(k, n) \<in> set items. truthy k \<and> hashable k"
  shows "label_counts acc items = Inr (acc @ items)"
  using assms
proof (induction items arbitrary: acc)
  case Nil
  show ?case by simp
next
  case (Cons item items)
  obtain k n where item: "item = (k, n)" by (cases item)
  from Cons.prems(1) item have fresh: "\<forall>(k', n') \<in> set acc. \<not> same_key k' k"
    and apart: "keys_apart ((acc @ [(k, n)]) @ items)"
    using keys_apart_append [of acc k n items] by simp_all
  from Cons.prems(2) item have ok: "truthy k" "hashable k"
    and rest: "\<forall>(k, n) \<in> set items. truthy k \<and> hashable k"
    by simp_all
  from Cons.IH [OF apart rest] fresh ok item show ?case
    by (simp add: label_def count_put_fresh)
qed

lemma window_march_2024:
  "month_window example_now (Some 3) (Some 2024) = Inr (2024, 3, Date 2024 3 1, Date 2024 4 1)"
  by (simp add: month_window_def example_now_def int_or_def mk_datetime_def c_int_def days_in_month_def)

lemma in_march_2024:
  "matches [date_range (Date 2024 3 1) (Date 2024 4 1)] example_activity"
  "matches [date_range (Date 2024 3 1) (Date 2024 4 1)] example_blank"
  "matches [date_range (Date 2024 3 1) (Date 2024 4 1)] example_unknown"
  by (simp_all add: matches_def date_range_def example_activity_def example_blank_def
      example_unknown_def date_le_def date_lt_def)

lemma example_categories:
  "get_or_none example_activity ''category'' = VStr ''administrasi''"
  "get_or_none example_blank ''category'' = VStr []"
  "get_or_none example_unknown ''category'' = VStr ''unknown''"
  by (simp_all add: get_or_none_def example_activity_def example_blank_def example_unknown_def)

lemma example_finance:
  "sum_field ''income'' [example_blank, example_unknown] = 0"
  "sum_field ''expense'' [example_blank, example_unknown] = 0"
  by (simp_all add: sum_field_def get_or_none_def if_null_def example_blank_def example_unknown_def)

text \<open>
  \<^bold>\<open>C6\<close>, as stated, asks only that the categories of the window are not null. The
  label of a group is \<^verbatim>\<open>item["_id"] or "unknown"\<close>, and the empty text is false: a record
  with the empty category and a record with the category \<open>unknown\<close> are two groups under
  one label, the second count replaces the first, and the counts sum to 1 where the
  total is 2.
\<close>

theorem dashboard_total_counterexample:
  "dashboard [example_blank, example_unknown] example_now (Some 3) (Some 2024)
     = Inr \<lparr>total_activities = 2, total_income = 0, total_expense = 0,
            per_category = [(VStr ''unknown'', 1)]\<rparr>
   \<and> get_or_none example_blank ''category'' \<noteq> VNone
   \<and> get_or_none example_unknown ''category'' \<noteq> VNone
   \<and> sum_list (map snd [(VStr ''unknown'', 1 :: nat)]) \<noteq> 2"
  by (simp add: dashboard_def window_march_2024 aggregate_match_def count_documents_def
      in_march_2024 example_categories group_count_def same_key_def label_def group_finance_def
      example_finance)

text \<open>
  \<^bold>\<open>C6\<close>, amended. For every window that the request resolves and every collection in
  which the category of every record of the window is a value that Python reads as true
  and that can be the key of a dictionary (a text that is not empty, as the schema has
  it), the dashboard answers, its counts per category are the counts of the groups, and
  its total, the count of the records of the window, is the sum of them.
\<close>

theorem dashboard_total_is_sum:
  assumes "month_window now month year = Inr (y, m, start, stop)"
    and "\<forall>d \<in> set (aggregate_match db [date_range start stop]).
           truthy (get_or_none d ''category'') \<and> hashable (get_or_none d ''category'')"
  shows "\<exists>r. dashboard db now month year = Inr r
     \<and> per_category r = group_count ''category'' (aggregate_match db [date_range start stop])
     \<and> total_activities r = length (aggregate_match db [date_range start stop])
     \<and> total_activities r = sum_list (map snd (per_category r))"
proof -
  let ?docs = "aggregate_match db [date_range start stop]"
  let ?g = "group_count ''category'' ?docs"
  have "\<forall>(k, n) \<in> set ?g. truthy k \<and> hashable k"
    using keys_group_count [of "''category''" ?docs] assms(2) by fastforce
  with apart_group_count [of "''category''" ?docs] have "label_counts [] ?g = Inr ([] @ ?g)"
    by (intro label_counts_apart) simp_all
  then show ?thesis
    using assms(1)
    by (simp add: dashboard_def Let_def count_documents_def aggregate_match_def sum_group_count)
qed

theorem dashboard_total_is_sum_witness:
  "month_window example_now (Some 3) (Some 2024) = Inr (2024, 3, Date 2024 3 1, Date 2024 4 1)
   \<and> aggregate_match [example_activity, example_unknown] [date_range (Date 2024 3 1) (Date 2024 4 1)]
       = [example_activity, example_unknown]
   \<and> truthy (get_or_none example_activity ''category'')
   \<and> truthy (get_or_none example_unknown ''category'')
   \<and> (\<exists>r. dashboard [example_activity, example_unknown] example_now (Some 3) (Some 2024) = Inr r
        \<and> per_category r = [(VStr ''administrasi'', 1), (VStr ''unknown'', 1)]
        \<and> total_activities r = 2
        \<and> sum_list (map snd (per_category r)) = 2)"
  using dashboard_total_is_sum [of example_now "Some 3" "Some 2024" 2024 3 "Date 2024 3 1"
      "Date 2024 4 1" "[example_activity, example_unknown]"]
  by (auto simp: window_march_2024 aggregate_match_def in_march_2024 example_categories
      group_count_def same_key_def)

subsection \<open>The CSV export\<close>

lemma CR_neq_LF [simp]: "CR \<noteq> LF" "LF \<noteq> CR"
  by (simp_all add: CR_def LF_def)

lemma count_lines_no_break: "no_break s \<Longrightarrow> count_lines s = 0"
  by (induction s rule: count_lines.induct) (auto simp: no_break_def)

lemma count_lines_crlf:
  "count_lines (s @ CR # LF # t) = Suc (count_lines s + count_lines t)"
  by (induction s rule: count_lines.induct) auto

lemma foldl_append_concat:
  "foldl (\<lambda>out a. out @ f a) init xs = init @ concat (map f xs)"
  by (induction xs arbitrary: init) simp_all

lemma DQ_no_break [simp]:
  "DQ \<noteq> CR" "DQ \<noteq> LF" "CHR '','' \<noteq> CR" "CHR '','' \<noteq> LF"
  "CR \<noteq> DQ" "LF \<noteq> DQ" "CR \<noteq> CHR '',''" "LF \<noteq> CHR '',''"
  by (simp_all add: DQ_def CR_def LF_def)

lemma no_break_csv_field: "no_break s \<Longrightarrow> no_break (csv_field s)"
  by (auto simp: no_break_def csv_field_def split: if_splits)

lemma no_break_join:
  "no_break sep \<Longrightarrow> \<forall>x \<in> set xs. no_break x \<Longrightarrow> no_break (join sep xs)"
  by (induction sep xs rule: join.induct) (auto simp: no_break_def)

lemma csv_writerow_line:
  assumes "\<forall>v \<in> set row. no_break (csv_text r v)"
  shows "\<exists>line. csv_writerow r row = line @ [CR, LF] \<and> no_break line"
proof -
  let ?fields = "map (\<lambda>v. csv_field (csv_text r v)) row"
  let ?line = "if ?fields = [[]] then [DQ, DQ] else join '','' ?fields"
  have "\<forall>f \<in> set ?fields. no_break f"
    using assms by (auto intro: no_break_csv_field)
  moreover have "no_break '',''"
    by (simp add: no_break_def)
  ultimately have "no_break (join '','' ?fields)"
    by (intro no_break_join)
  then have "no_break ?line"
    by (simp add: no_break_def)
  moreover have "csv_writerow r row = ?line @ [CR, LF]"
    by (simp add: csv_writerow_def Let_def)
  ultimately show ?thesis by blast
qed

lemma count_lines_rows:
  assumes "\<forall>row \<in> set rows. \<exists>line. row = line @ [CR, LF] \<and> no_break line"
  shows "count_lines (concat rows) = length rows"
  using assms
proof (induction rows)
  case Nil
  show ?case by simp
next
  case (Cons row rows)
  then obtain line where "row = line @ [CR, LF]" "no_break line" by auto
  with Cons show ?case
    by (simp add: count_lines_crlf count_lines_no_break)
qed

lemma header_row:
  "csv_writerow r csv_header
     = ''Tanggal,Nama,Kategori,Durasi,Hasil,Catatan,Pemasukan,Pengeluaran,Kategori Keuangan'' @ [CR, LF]"
  by (simp add: csv_writerow_def csv_header_def csv_field_def csv_text_def csv_special_def
      DQ_def CR_def LF_def)

lemma empty_row: "csv_row r [] = '',,,,,,,,'' @ [CR, LF]"
  by (simp add: csv_row_def csv_writerow_def csv_columns_def get_or_none_def csv_field_def
      csv_text_def)

lemma example_wire_row:
  "csv_row example_repr example_wire = ''2024-03-05,Rapat,administrasi,2.0,,,,,'' @ [CR, LF]"
  by (simp add: csv_row_def csv_writerow_def csv_columns_def get_or_none_def example_wire_def
      csv_field_def csv_text_def csv_special_def example_repr_def DQ_def CR_def LF_def)

lemma example_multiline_row:
  "csv_row example_repr example_multiline
     = ''2024-03-05,Rapat,administrasi,2.0,,'' @ [DQ] @ ''baris 1'' @ [LF] @ ''baris 2'' @ [DQ]
         @ '',,,'' @ [CR, LF]"
  by (simp add: csv_row_def csv_writerow_def csv_columns_def get_or_none_def example_multiline_def
      csv_field_def csv_text_def csv_special_def example_repr_def DQ_def CR_def LF_def)

text \<open>
  \<^bold>\<open>C9\<close>, as stated, counts N + 1 lines for N records. A field that holds a line break
  is written between double quotes with the line break in it, so a record whose notes
  are two lines takes two lines of the text: one record gives three lines, not two.
\<close>

theorem csv_export_multiline_counterexample:
  "count_lines (csv_content example_repr [example_multiline]) = 3
   \<and> length [example_multiline] + 1 = 2"
  by (simp add: csv_content_def header_row example_multiline_row CR_def LF_def DQ_def)

text \<open>
  \<^bold>\<open>C9\<close>, amended. The export of N serialized records is the header row of the nine
  fixed columns followed by one row of nine fields per record, in the order of the
  input, a missing field written as the empty text; when no field written holds a
  carriage return or a line feed, the text has exactly N + 1 lines. The content of the
  answer of \<open>export_csv\<close> is that text for the records that \<open>list_activities\<close> returns.
\<close>

theorem csv_export_lines:
  assumes "\<forall>a \<in> set activities. \<forall>k \<in> set csv_columns. no_break (csv_text r (get_or_none a k))"
  shows "csv_content r activities = csv_writerow r csv_header @ concat (map (csv_row r) activities)
     \<and> count_lines (csv_content r activities) = length activities + 1
     \<and> length csv_header = 9 \<and> length csv_columns = 9
     \<and> csv_row r [] = '',,,,,,,,'' @ [CR, LF]
     \<and> (list_activities r db now month year None None = Inr activities \<longrightarrow>
          export_csv r db now month year
            = Inr \<lparr>content = csv_content r activities, media_type = ''text/csv'',
                   content_disposition =
                     ''attachment; filename='' @ export_name now month year ''.csv''\<rparr>)"
proof -
  have content: "csv_content r activities
      = csv_writerow r csv_header @ concat (map (csv_row r) activities)"
    by (simp add: csv_content_def foldl_append_concat)
  have "\<forall>row \<in> set (csv_writerow r csv_header # map (csv_row r) activities).
      \<exists>line. row = line @ [CR, LF] \<and> no_break line"
  proof
    fix row
    assume "row \<in> set (csv_writerow r csv_header # map (csv_row r) activities)"
    then consider "row = csv_writerow r csv_header"
      | a where "a \<in> set activities" "row = csv_row r a"
      by auto
    then show "\<exists>line. row = line @ [CR, LF] \<and> no_break line"
    proof cases
      case 1
      then show ?thesis
        by (simp add: header_row no_break_def CR_def LF_def)
    next
      case 2
      with assms have "\<forall>v \<in> set (map (get_or_none a) csv_columns). no_break (csv_text r v)"
        by auto
      from csv_writerow_line [OF this] 2 show ?thesis
        by (simp add: csv_row_def)
    qed
  qed
  from count_lines_rows [OF this] have "count_lines (csv_content r activities) = length activities + 1"
    by (simp add: content)
  with content show ?thesis
    by (simp add: empty_row export_csv_def csv_header_def csv_columns_def)
qed

theorem csv_export_lines_witness:
  "csv_content example_repr [example_wire]
     = ''Tanggal,Nama,Kategori,Durasi,Hasil,Catatan,Pemasukan,Pengeluaran,Kategori Keuangan''
         @ [CR, LF] @ ''2024-03-05,Rapat,administrasi,2.0,,,,,'' @ [CR, LF]
   \<and> count_lines (csv_content example_repr [example_wire]) = 2"
  using csv_export_lines [of "[example_wire]" example_repr "[]" example_now None None]
  by (simp add: header_row example_wire_row)
     (simp add: csv_columns_def get_or_none_def example_wire_def csv_text_def example_repr_def
       no_break_def CR_def LF_def)

subsection \<open>The text report without month and year\<close>

lemma foldl_snoc_map: "foldl (\<lambda>ls a. ls @ [f a]) init xs = init @ map f xs"
  by (induction xs arbitrary: init) simp_all

lemma query_no_filters: "list_activities_query now None None None None = []"
  by (simp add: list_activities_query_def int_truthy_def str_truthy_def)

lemma list_all_activities:
  "list_activities r db now None None None None = Inr (map (serialize_doc r) db)"
  by (simp add: list_activities_def query_no_filters get_documents_def matches_def)

lemma matches_date_range:
  "matches [date_range start stop] d
     = (case dict_get d ''date'' of
          Some (VDate x) \<Rightarrow> date_le start x \<and> date_lt x stop
        | _ \<Rightarrow> False)"
  by (simp add: matches_def date_range_def split: option.splits pyval.splits)

lemma aggregate_match_date_range:
  "aggregate_match db [date_range start stop]
     = filter (\<lambda>d. case dict_get d ''date'' of
                      Some (VDate x) \<Rightarrow> date_le start x \<and> date_lt x stop
                    | _ \<Rightarrow> False) db"
  by (simp add: aggregate_match_def matches_date_range [abs_def])

lemma month_window_now:
  assumes "month_window now None None = Inr w"
  shows "w = (d_year (dt_date now), d_month (dt_date now),
              Date (d_year (dt_date now)) (d_month (dt_date now)) 1,
              if d_month (dt_date now) = 12 then Date (d_year (dt_date now) + 1) 1 1
              else Date (d_year (dt_date now)) (d_month (dt_date now) + 1) 1)"
  using assms
  by (auto simp: month_window_def int_or_def mk_datetime_def Let_def split: sum.splits if_splits)

lemma month_window_resolves:
  assumes "int_or month (d_month (dt_date now)) = m" "int_or year (d_year (dt_date now)) = y"
    and "1 \<le> m" "m \<le> 12" "1 \<le> y" "y \<le> 9999" "m \<noteq> 12 \<or> y \<noteq> 9999"
  shows "month_window now month year
           = Inr (y, m, Date y m 1, if m = 12 then Date (y + 1) 1 1 else Date y (m + 1) 1)"
proof -
  have start: "mk_datetime y m 1 = Inr (DateTime (Date y m 1) 0 0 0 0)"
    using assms by (simp add: mk_datetime_first)
  show ?thesis
  proof (cases "m = 12")
    case True
    with assms have "1 \<le> y + 1" "y + 1 \<le> 9999" by auto
    then have "mk_datetime (y + 1) 1 1 = Inr (DateTime (Date (y + 1) 1 1) 0 0 0 0)"
      by (simp add: mk_datetime_first)
    with True start assms(1,2) show ?thesis
      by (simp add: month_window_def)
  next
    case False
    with assms have "1 \<le> m + 1" "m + 1 \<le> 12" by auto
    with assms have "mk_datetime y (m + 1) 1 = Inr (DateTime (Date y (m + 1) 1) 0 0 0 0)"
      by (simp add: mk_datetime_first)
    with False start assms(1,2) show ?thesis
      by (simp add: month_window_def)
  qed
qed

lemma hashable_label: "hashable k \<Longrightarrow> hashable (label k)"
  by (simp add: label_def)

lemma label_counts_hashable:
  "\<forall>(k, n) \<in> set items. hashable k \<Longrightarrow> \<exists>labelled. label_counts acc items = Inr labelled"
  by (induction items arbitrary: acc) (auto simp: hashable_label)

lemma label_counts_of_hashable:
  assumes "\<forall>d \<in> set docs. hashable (get_or_none d ''category'')"
  shows "\<exists>cats. label_counts [] (group_count ''category'' docs) = Inr cats"
proof -
  have "\<forall>(k, n) \<in> set (group_count ''category'' docs). hashable k"
    using keys_group_count [of "''category''" docs] assms by fastforce
  then show ?thesis
    by (rule label_counts_hashable)
qed

lemma finance_totals:
  "(case group_finance docs of [] \<Rightarrow> 0 | f # fs \<Rightarrow> fst f) = sum_field ''income'' docs"
  "(case group_finance docs of [] \<Rightarrow> 0 | f # fs \<Rightarrow> snd f) = sum_field ''expense'' docs"
  by (simp_all add: group_finance_def sum_field_def)

lemma monthly_recap_window:
  assumes "month_window now month year = Inr (y, m, start, stop)"
  shows "monthly_recap r f db now month year
     = (case label_counts [] (group_count ''category'' (aggregate_match db [date_range start stop])) of
          Inl e \<Rightarrow> Inl e
        | Inr cats \<Rightarrow>
            Inr \<lparr>recap_month = m, recap_year = y, recap_categories = cats,
                 recap_income = sum_field ''income'' (aggregate_match db [date_range start stop]),
                 recap_expense = sum_field ''expense'' (aggregate_match db [date_range start stop]),
                 recap_summary =
                   recap_text r f m y cats
                     (sum_field ''income'' (aggregate_match db [date_range start stop]))
                     (sum_field ''expense'' (aggregate_match db [date_range start stop]))\<rparr>)"
  using assms by (simp add: monthly_recap_def Let_def finance_totals split: sum.splits)

lemma export_pdf_of_recap:
  "export_pdf r f db now None None
     = (case monthly_recap r f db now None None of
          Inl e \<Rightarrow> Inl e
        | Inr recap \<Rightarrow>
            Inr \<lparr>content =
                   join [LF]
                     ([''Laporan Bulanan'',
                       ''Bulan: '' @ str_int (recap_month recap) @ ''/'' @ str_int (recap_year recap),
                       recap_summary recap,
                       [],
                       ''Rincian Kegiatan:'']
                      @ map (\<lambda>d. report_line r (serialize_doc r d)) db),
                 media_type = ''text/plain'',
                 content_disposition =
                   ''attachment; filename=laporan_'' @ str_int (d_year (dt_date now)) @ ''_''
                     @ str_int (d_month (dt_date now)) @ ''.txt''\<rparr>)"
  by (simp add: export_pdf_def list_all_activities report_lines_def foldl_snoc_map comp_def
      export_name_def int_or_def split: sum.splits)

lemma str_int_eval:
  "str_int 3 = ''3''" "str_int 2024 = ''2024''" "str_nat (Suc (Suc 0)) = ''2''"
  "str_int 12 = ''12''" "str_int 9999 = ''9999''"
  "str_int 20000 = ''20000''" "str_int 50000 = ''50000''"
  by (simp_all add: str_int_def str_nat.simps [of "Suc (Suc 0)"] str_nat.simps [of 2]
      str_nat.simps [of 3]
      str_nat.simps [of 2024] str_nat.simps [of 202] str_nat.simps [of 20]
      str_nat.simps [of 12] str_nat.simps [of "Suc 0"]
      str_nat.simps [of 9999] str_nat.simps [of 999] str_nat.simps [of 99] str_nat.simps [of 9]
      str_nat.simps [of 20000] str_nat.simps [of 2000] str_nat.simps [of 200]
      str_nat.simps [of 50000] str_nat.simps [of 5000] str_nat.simps [of 500]
      str_nat.simps [of 50] str_nat.simps [of 5]
      digit_char_def)

lemma window_now: "month_window example_now None None = Inr (2024, 3, Date 2024 3 1, Date 2024 4 1)"
  by (simp add: month_window_def example_now_def int_or_def mk_datetime_def c_int_def
      days_in_month_def)

lemma window_last_day: "month_window example_last_day None None = Inl ValueError"
  by (simp add: month_window_def example_last_day_def int_or_def mk_datetime_def c_int_def
      days_in_month_def)

lemma example_of_month:
  "filter (\<lambda>d. case dict_get d ''date'' of
                 Some (VDate x) \<Rightarrow> date_le (Date 2024 3 1) x \<and> date_lt x (Date 2024 4 1)
               | _ \<Rightarrow> False) [example_activity, example_spend, example_old]
     = [example_activity, example_spend]"
  "filter (\<lambda>d. case dict_get d ''date'' of
                 Some (VDate x) \<Rightarrow> date_le (Date 2024 3 1) x \<and> date_lt x (Date 2024 4 1)
               | _ \<Rightarrow> False) [example_listed]
     = [example_listed]"
  by (simp_all add: example_activity_def example_spend_def example_old_def example_listed_def
      date_le_def date_lt_def)

lemma example_counts:
  "label_counts [] (group_count ''category'' [example_activity, example_spend])
     = Inr [(VStr ''administrasi'', Suc 0), (VStr ''keuangan'', Suc 0)]"
  "label_counts [] (group_count ''category'' [example_listed]) = Inl TypeError"
  by (simp_all add: group_count_def get_or_none_def example_activity_def example_spend_def
      example_listed_def same_key_def label_def)

lemma example_totals:
  "sum_field ''income'' [example_activity, example_spend] = 20000"
  "sum_field ''expense'' [example_activity, example_spend] = 50000"
  by (simp_all add: sum_field_def if_null_def get_or_none_def example_activity_def
      example_spend_def)

lemma example_recap_text:
  "recap_text example_repr example_fmt2f 3 2024
       [(VStr ''administrasi'', Suc 0), (VStr ''keuangan'', Suc 0)] 20000 50000
     = ''Bulan 3/2024: Total kegiatan 2. Kategori terbanyak: administrasi. Pemasukan 20000.00, Pengeluaran 50000.00.''"
  by (simp add: recap_text_def max_key_def str_int_eval example_fmt2f_def)

lemma serialize_examples:
  "serialize_doc example_repr example_spend
     = [(''date'', VStr ''2024-03-12''), (''name'', VStr ''Belanja''), (''category'', VStr ''keuangan''),
        (''duration'', VFloat 2), (''income'', VFloat 20000), (''expense'', VFloat 50000),
        (''id'', VStr ''65e6f0a1b2c3d4e5f6a7b8ce'')]"
  "serialize_doc example_repr example_old
     = [(''date'', VStr ''2023-01-20''), (''name'', VStr ''Audit''), (''category'', VStr ''keuangan''),
        (''duration'', VFloat 2), (''income'', VFloat 75000), (''expense'', VFloat 10000),
        (''id'', VStr ''65e6f0a1b2c3d4e5f6a7b8cd'')]"
  by (simp_all add: example_spend_def example_old_def serialize_doc_unfold rekey_def
      serialize_entry_def date_iso_def zero_pad_def str_nat.simps digit_char_def Let_def)

lemma example_report_lines:
  "report_line example_repr example_wire = ''- 2024-03-05 | Rapat | administrasi | 2.0 jam''"
  "report_line example_repr (serialize_doc example_repr example_spend)
     = ''- 2024-03-12 | Belanja | keuangan | 2.0 jam''"
  "report_line example_repr (serialize_doc example_repr example_old)
     = ''- 2023-01-20 | Audit | keuangan | 2.0 jam''"
  by (simp_all add: serialize_examples report_line_def get_or_none_def example_wire_def
      example_repr_def)

text \<open>
  \<^bold>\<open>C10\<close>. A request for the text report that carries neither month nor year. Let \<open>y\<close>
  and \<open>m\<close> be the year and the month of the clock, and the records of the month those of
  the collection whose date is from the first day of \<open>m\<close> in \<open>y\<close> up to, and not
  including, the first day of the month after it. Then:

    \<^item> the filter for the detail lines is empty, and the listing is every record of the
      collection, serialized, in the order of the collection;

    \<^item> the window of the recap, when it can be built, is that of \<open>m\<close> in \<open>y\<close>, and it can
      be built for every month of the years 1 to 9999 but December 9999;

    \<^item> an exception raised by the window or by labelling the category counts is the
      answer of the recap and of the report, and labelling raises nothing when no
      category of the records of the month is a list or a dictionary;

    \<^item> otherwise the recap is that of \<open>m\<close> and \<open>y\<close>: its category counts, its income and
      its expense are taken over the records of the month alone, and its summary is the
      text made of them; the report is its three header lines, the second naming \<open>m\<close>
      and \<open>y\<close> and the third being that summary, an empty line, the title of the details,
      and one detail line for every record of the collection, whatever its date.
\<close>

theorem export_pdf_no_month:
  "let y = d_year (dt_date now);
       m = d_month (dt_date now);
       start = Date y m 1;
       stop = (if m = 12 then Date (y + 1) 1 1 else Date y (m + 1) 1);
       of_month = filter (\<lambda>d. case dict_get d ''date'' of
                                  Some (VDate x) \<Rightarrow> date_le start x \<and> date_lt x stop
                                | _ \<Rightarrow> False) db;
       counts = label_counts [] (group_count ''category'' of_month);
       income = sum_field ''income'' of_month;
       expense = sum_field ''expense'' of_month
   in list_activities_query now None None None None = []
    \<and> list_activities r db now None None None None = Inr (map (serialize_doc r) db)
    \<and> (\<forall>w. month_window now None None = Inr w \<longrightarrow> w = (y, m, start, stop))
    \<and> (1 \<le> m \<and> m \<le> 12 \<and> 1 \<le> y \<and> y \<le> 9999 \<and> (m = 12 \<longrightarrow> y < 9999)
          \<longrightarrow> month_window now None None = Inr (y, m, start, stop))
    \<and> ((\<forall>d \<in> set of_month. hashable (get_or_none d ''category''))
          \<longrightarrow> (\<exists>cats. counts = Inr cats))
    \<and> (\<forall>e. month_window now None None = Inl e
          \<longrightarrow> monthly_recap r f db now None None = Inl e
            \<and> export_pdf r f db now None None = Inl e)
    \<and> (\<forall>w e. month_window now None None = Inr w \<and> counts = Inl e
          \<longrightarrow> monthly_recap r f db now None None = Inl e
            \<and> export_pdf r f db now None None = Inl e)
    \<and> (\<forall>w cats. month_window now None None = Inr w \<and> counts = Inr cats
          \<longrightarrow> monthly_recap r f db now None None
                = Inr \<lparr>recap_month = m, recap_year = y, recap_categories = cats,
                       recap_income = income, recap_expense = expense,
                       recap_summary = recap_text r f m y cats income expense\<rparr>
            \<and> export_pdf r f db now None None
                = Inr \<lparr>content =
                         join [LF]
                           ([''Laporan Bulanan'',
                             ''Bulan: '' @ str_int m @ ''/'' @ str_int y,
                             recap_text r f m y cats income expense,
                             [],
                             ''Rincian Kegiatan:'']
                            @ map (\<lambda>d. report_line r (serialize_doc r d)) db),
                       media_type = ''text/plain'',
                       content_disposition =
                         ''attachment; filename=laporan_'' @ str_int y @ ''_'' @ str_int m
                           @ ''.txt''\<rparr>)"
proof -
  let ?y = "d_year (dt_date now)"
  let ?m = "d_month (dt_date now)"
  let ?start = "Date ?y ?m 1"
  let ?stop = "if ?m = 12 then Date (?y + 1) 1 1 else Date ?y (?m + 1) 1"
  let ?of_month = "filter (\<lambda>d. case dict_get d ''date'' of
                                  Some (VDate x) \<Rightarrow> date_le ?start x \<and> date_lt x ?stop
                                | _ \<Rightarrow> False) db"
  let ?counts = "label_counts [] (group_count ''category'' ?of_month)"
  have shape: "w = (?y, ?m, ?start, ?stop)" if "month_window now None None = Inr w" for w
    using month_window_now [OF that] .
  have built: "month_window now None None = Inr (?y, ?m, ?start, ?stop)"
    if "1 \<le> ?m \<and> ?m \<le> 12 \<and> 1 \<le> ?y \<and> ?y \<le> 9999 \<and> (?m = 12 \<longrightarrow> ?y < 9999)"
    using that by (intro month_window_resolves) (auto simp: int_or_def)
  have labelled: "\<exists>cats. ?counts = Inr cats"
    if "\<forall>d \<in> set ?of_month. hashable (get_or_none d ''category'')"
    using that by (rule label_counts_of_hashable)
  have no_window: "monthly_recap r f db now None None = Inl e
      \<and> export_pdf r f db now None None = Inl e"
    if "month_window now None None = Inl e" for e
    using that by (simp add: export_pdf_of_recap) (simp add: monthly_recap_def)
  have recap: "monthly_recap r f db now None None
      = (case ?counts of
           Inl e \<Rightarrow> Inl e
         | Inr cats \<Rightarrow>
             Inr \<lparr>recap_month = ?m, recap_year = ?y, recap_categories = cats,
                  recap_income = sum_field ''income'' ?of_month,
                  recap_expense = sum_field ''expense'' ?of_month,
                  recap_summary =
                    recap_text r f ?m ?y cats (sum_field ''income'' ?of_month)
                      (sum_field ''expense'' ?of_month)\<rparr>)"
    if "month_window now None None = Inr w" for w
  proof -
    from that shape [OF that]
    have "month_window now None None = Inr (?y, ?m, ?start, ?stop)"
      by simp
    from monthly_recap_window [OF this, of r f db] show ?thesis
      by (simp only: aggregate_match_date_range)
  qed
  have refused: "monthly_recap r f db now None None = Inl e
      \<and> export_pdf r f db now None None = Inl e"
    if "month_window now None None = Inr w \<and> ?counts = Inl e" for w e
    using that recap [of w] by (simp add: export_pdf_of_recap)
  have produced: "monthly_recap r f db now None None
        = Inr \<lparr>recap_month = ?m, recap_year = ?y, recap_categories = cats,
               recap_income = sum_field ''income'' ?of_month,
               recap_expense = sum_field ''expense'' ?of_month,
               recap_summary =
                 recap_text r f ?m ?y cats (sum_field ''income'' ?of_month)
                   (sum_field ''expense'' ?of_month)\<rparr>
      \<and> export_pdf r f db now None None
        = Inr \<lparr>content =
                 join [LF]
                   ([''Laporan Bulanan'',
                     ''Bulan: '' @ str_int ?m @ ''/'' @ str_int ?y,
                     recap_text r f ?m ?y cats (sum_field ''income'' ?of_month)
                       (sum_field ''expense'' ?of_month),
                     [],
                     ''Rincian Kegiatan:'']
                    @ map (\<lambda>d. report_line r (serialize_doc r d)) db),
               media_type = ''text/plain'',
               content_disposition =
                 ''attachment; filename=laporan_'' @ str_int ?y @ ''_'' @ str_int ?m
                   @ ''.txt''\<rparr>"
    if "month_window now None None = Inr w \<and> ?counts = Inr cats" for w cats
    using that recap [of w] by (simp add: export_pdf_of_recap)
  show ?thesis
    unfolding Let_def
    using query_no_filters [of now] list_all_activities [of r db now]
      shape built labelled no_window refused produced
    by (intro conjI allI impI) blast+
qed

theorem export_pdf_no_month_witness:
  "monthly_recap example_repr example_fmt2f [example_activity, example_spend, example_old]
       example_now None None
     = Inr \<lparr>recap_month = 3, recap_year = 2024,
            recap_categories = [(VStr ''administrasi'', 1), (VStr ''keuangan'', 1)],
            recap_income = 20000, recap_expense = 50000,
            recap_summary =
              ''Bulan 3/2024: Total kegiatan 2. Kategori terbanyak: administrasi. Pemasukan 20000.00, Pengeluaran 50000.00.''\<rparr>
   \<and> export_pdf example_repr example_fmt2f [example_activity, example_spend, example_old]
       example_now None None
     = Inr \<lparr>content =
              join [LF]
                [''Laporan Bulanan'',
                 ''Bulan: 3/2024'',
                 ''Bulan 3/2024: Total kegiatan 2. Kategori terbanyak: administrasi. Pemasukan 20000.00, Pengeluaran 50000.00.'',
                 [],
                 ''Rincian Kegiatan:'',
                 ''- 2024-03-05 | Rapat | administrasi | 2.0 jam'',
                 ''- 2024-03-12 | Belanja | keuangan | 2.0 jam'',
                 ''- 2023-01-20 | Audit | keuangan | 2.0 jam''],
             media_type = ''text/plain'',
             content_disposition = ''attachment; filename=laporan_2024_3.txt''\<rparr>
   \<and> export_pdf example_repr example_fmt2f [example_listed] example_now None None = Inl TypeError
   \<and> export_pdf example_repr example_fmt2f [example_activity, example_spend, example_old]
       example_last_day None None = Inl ValueError"
proof -
  have now: "d_year (dt_date example_now) = 2024" "d_month (dt_date example_now) = 3"
    by (simp_all add: example_now_def)
  have arith: "((3::int) = 12) = False" "(3::int) + 1 = 4"
    by simp_all
  note at_now = now arith if_False Let_def window_now
  have produced:
    "monthly_recap example_repr example_fmt2f [example_activity, example_spend, example_old]
         example_now None None
       = Inr \<lparr>recap_month = 3, recap_year = 2024,
              recap_categories = [(VStr ''administrasi'', Suc 0), (VStr ''keuangan'', Suc 0)],
              recap_income = 20000, recap_expense = 50000,
              recap_summary =
                recap_text example_repr example_fmt2f 3 2024
                  [(VStr ''administrasi'', Suc 0), (VStr ''keuangan'', Suc 0)] 20000 50000\<rparr>
     \<and> export_pdf example_repr example_fmt2f [example_activity, example_spend, example_old]
         example_now None None
       = Inr \<lparr>content =
                join [LF]
                  ([''Laporan Bulanan'',
                    ''Bulan: '' @ str_int 3 @ ''/'' @ str_int 2024,
                    recap_text example_repr example_fmt2f 3 2024
                      [(VStr ''administrasi'', Suc 0), (VStr ''keuangan'', Suc 0)] 20000 50000,
                    [],
                    ''Rincian Kegiatan:'']
                   @ map (\<lambda>d. report_line example_repr (serialize_doc example_repr d))
                       [example_activity, example_spend, example_old]),
               media_type = ''text/plain'',
               content_disposition =
                 ''attachment; filename=laporan_'' @ str_int 2024 @ ''_'' @ str_int 3 @ ''.txt''\<rparr>"
    using export_pdf_no_month [of example_now "[example_activity, example_spend, example_old]"
        example_repr example_fmt2f,
        unfolded at_now example_of_month example_counts example_totals]
    by blast
  have refused:
    "export_pdf example_repr example_fmt2f [example_listed] example_now None None = Inl TypeError"
    using export_pdf_no_month [of example_now "[example_listed]" example_repr example_fmt2f,
        unfolded at_now example_of_month example_counts]
    by blast
  have no_window:
    "export_pdf example_repr example_fmt2f [example_activity, example_spend, example_old]
       example_last_day None None = Inl ValueError"
    using export_pdf_no_month [of example_last_day "[example_activity, example_spend, example_old]"
        example_repr example_fmt2f, unfolded Let_def window_last_day]
    by blast
  from produced have
    "monthly_recap example_repr example_fmt2f [example_activity, example_spend, example_old]
         example_now None None
       = Inr \<lparr>recap_month = 3, recap_year = 2024,
              recap_categories = [(VStr ''administrasi'', 1), (VStr ''keuangan'', 1)],
              recap_income = 20000, recap_expense = 50000,
              recap_summary =
                ''Bulan 3/2024: Total kegiatan 2. Kategori terbanyak: administrasi. Pemasukan 20000.00, Pengeluaran 50000.00.''\<rparr>"
    by (simp add: example_recap_text)
  moreover from produced have
    "export_pdf example_repr example_fmt2f [example_activity, example_spend, example_old]
         example_now None None
       = Inr \<lparr>content =
              join [LF]
                [''Laporan Bulanan'',
                 ''Bulan: 3/2024'',
                 ''Bulan 3/2024: Total kegiatan 2. Kategori terbanyak: administrasi. Pemasukan 20000.00, Pengeluaran 50000.00.'',
                 [],
                 ''Rincian Kegiatan:'',
                 ''- 2024-03-05 | Rapat | administrasi | 2.0 jam'',
                 ''- 2024-03-12 | Belanja | keuangan | 2.0 jam'',
                 ''- 2023-01-20 | Audit | keuangan | 2.0 jam''],
             media_type = ''text/plain'',
             content_disposition = ''attachment; filename=laporan_2024_3.txt''\<rparr>"
    by (simp add: example_recap_text str_int_eval serialize_example example_report_lines)
  ultimately show ?thesis
    using refused no_window by (intro conjI)
qed

end
